theory Spec2Isabelle
  imports Main "HOL-Library.AList" "HOL-Library.Multiset"
begin

section \<open>Strings\<close>

text \<open>
  A JavaScript string is modelled as a \<open>string\<close>: a list of code units, here the 8-bit
  ones (Latin-1). \<open>length\<close> and \<open>take\<close> are \<open>.length\<close> and \<open>.substring(0, n)\<close>.
\<close>

definition is_space :: "char \<Rightarrow> bool" where
  \<comment> \<open>the white space and line terminators that \<open>String.prototype.trim\<close> strips:
      TAB, LF, VT, FF, CR, SPACE, NBSP\<close>
  "is_space c = (of_char c \<in> set [9, 10, 11, 12, 13, 32, 160 :: nat])"

definition trim :: "string \<Rightarrow> string" where
  "trim s = rev (dropWhile is_space (rev (dropWhile is_space s)))"

definition lower_char :: "char \<Rightarrow> char" where
  "lower_char c =
     (let n = (of_char c :: nat)
      in if (65 \<le> n \<and> n \<le> 90) \<or> (192 \<le> n \<and> n \<le> 222 \<and> n \<noteq> 215)
         then char_of (n + 32) else c)"

definition toLowerCase :: "string \<Rightarrow> string" where
  "toLowerCase s = map lower_char s"

definition startsWith :: "string \<Rightarrow> string \<Rightarrow> bool" where
  "startsWith s p = (take (length p) s = p)"

section \<open>Paths\<close>

text \<open>
  Paths are POSIX paths. A path is the list of its components below the file-system
  root. \<open>path.join\<close> splits its arguments at the separator and normalises: empty
  components and \<open>.\<close> vanish, \<open>..\<close> removes the component before it (and stays at the
  root).
\<close>

type_synonym path = "string list"

fun split_path :: "string \<Rightarrow> string list" where
  "split_path [] = [[]]"
| "split_path (c # cs) =
     (if c = CHR ''/'' then [] # split_path cs
      else (case split_path cs of [] \<Rightarrow> [[c]] | s # ss \<Rightarrow> (c # s) # ss))"

definition norm_step :: "path \<Rightarrow> string \<Rightarrow> path" where
  "norm_step acc seg =
     (if seg = [] \<or> seg = ''.'' then acc
      else if seg = ''..'' then butlast acc
      else acc @ [seg])"

definition join :: "path \<Rightarrow> string list \<Rightarrow> path" where
  "join base parts = foldl norm_step base (concat (map split_path parts))"

definition plain :: "string \<Rightarrow> bool" where
  \<comment> \<open>a single path component: \<open>path.join\<close> appends it as it is\<close>
  "plain s = (s \<noteq> [] \<and> s \<noteq> ''.'' \<and> s \<noteq> ''..'' \<and> CHR ''/'' \<notin> set s)"

definition basename_part :: "string \<Rightarrow> string" where
  \<comment> \<open>the last portion of a path, trailing separators ignored\<close>
  "basename_part s =
     rev (takeWhile (\<lambda>c. c \<noteq> CHR ''/'') (dropWhile (\<lambda>c. c = CHR ''/'') (rev s)))"

definition extname :: "string \<Rightarrow> string" where
  \<comment> \<open>\<open>path.extname\<close>: from the last dot of the last portion to its end; empty when
      there is no dot, when the only dot starts the portion, and for \<open>..\<close>\<close>
  "extname s =
     (let b = basename_part s;
          e = rev (takeWhile (\<lambda>c. c \<noteq> CHR ''.'') (rev b))
      in if CHR ''.'' \<notin> set b \<or> b = ''..'' \<or> length b = Suc (length e) then []
         else CHR ''.'' # e)"

definition app_dir :: path where
  \<comment> \<open>\<open>__dirname\<close>, the directory of server.js; a representative value\<close>
  "app_dir = [''srv'', ''backend'']"

definition profilesDir :: path where
  "profilesDir = join app_dir [''data'', ''profiles'']"

definition tempDir :: path where
  "tempDir = join app_dir [''temp'']"

definition getProfilePath :: "string \<Rightarrow> path" where
  "getProfilePath pid = join profilesDir [pid]"

definition getPhotoPath :: "string \<Rightarrow> string \<Rightarrow> path" where
  "getPhotoPath pid photoName = join profilesDir [pid, photoName]"

definition getJsonPath :: "string \<Rightarrow> path" where
  "getJsonPath pid = join profilesDir [pid, ''profile.json'']"

section \<open>Values, documents and the file system\<close>

text \<open>
  The property values of a profile document are strings and \<open>null\<close>; a JavaScript value
  read from a document is a \<open>json option\<close>, \<open>None\<close> being \<open>undefined\<close>. An object is
  the list of its properties in their order; \<open>map_of d k\<close> reads \<open>d.k\<close>. A property
  holding \<open>undefined\<close> and an absent property read the same and are both left out by
  \<open>JSON.stringify\<close>, so assigning \<open>undefined\<close> removes the property; assigning another
  value replaces it in place or appends it.

  The content of a file is taken up to \<open>JSON.parse\<close>: \<open>Doc d\<close> is the text that
  \<open>JSON.stringify\<close> writes for the object \<open>d\<close>, and \<open>Bytes s\<close> is any content that
  \<open>JSON.parse\<close> rejects (image data, truncated or damaged text). JSON texts of another
  shape (numbers, arrays, nested objects) are outside the model.
\<close>

datatype json = JNull | JStr string

type_synonym jsval = "json option"

type_synonym document = "(string \<times> json) list"

datatype content = Doc document | Bytes string

datatype node = File content | Dir

type_synonym filesystem = "(path \<times> node) list"

datatype js_error = FsError | TypeError | SyntaxError

definition JSON_parse :: "content \<Rightarrow> js_error + document" where
  "JSON_parse c = (case c of Doc d \<Rightarrow> Inr d | Bytes s \<Rightarrow> Inl SyntaxError)"

definition object :: "(string \<times> jsval) list \<Rightarrow> document" where
  \<comment> \<open>an object literal, as \<open>JSON.stringify\<close> writes it\<close>
  "object props = concat (map (\<lambda>(k, v). case v of None \<Rightarrow> [] | Some x \<Rightarrow> [(k, x)]) props)"

definition assign :: "string \<Rightarrow> jsval \<Rightarrow> document \<Rightarrow> document" where
  \<comment> \<open>\<open>d.k = v\<close>\<close>
  "assign k v d = (case v of None \<Rightarrow> AList.delete k d | Some x \<Rightarrow> AList.update k x d)"

definition to_string :: "jsval \<Rightarrow> string" where
  \<comment> \<open>the conversion a template literal applies to \<open>${v}\<close>\<close>
  "to_string v =
     (case v of None \<Rightarrow> ''undefined'' | Some JNull \<Rightarrow> ''null'' | Some (JStr s) \<Rightarrow> s)"

text \<open>
  The file system is an association list from paths to nodes; the entries of a
  directory are listed in the order of the list. The operations are those of
  \<open>fs.promises\<close> that server.js calls; each failure is \<open>Inl FsError\<close>.
\<close>

definition is_dir :: "node option \<Rightarrow> bool" where
  "is_dir n = (case n of Some Dir \<Rightarrow> True | _ \<Rightarrow> False)"

definition is_file :: "node option \<Rightarrow> bool" where
  "is_file n = (case n of Some (File c) \<Rightarrow> True | _ \<Rightarrow> False)"

definition pathExists :: "path \<Rightarrow> filesystem \<Rightarrow> bool" where
  \<comment> \<open>\<open>fs.access\<close> succeeded\<close>
  "pathExists p fs = (map_of fs p \<noteq> None)"

definition readdir :: "path \<Rightarrow> filesystem \<Rightarrow> js_error + string list" where
  "readdir p fs =
     (case map_of fs p of
        Some Dir \<Rightarrow> Inr (remdups (map (last \<circ> fst) (filter (\<lambda>(q, n). q \<noteq> [] \<and> butlast q = p) fs)))
      | _ \<Rightarrow> Inl FsError)"

definition readFile :: "path \<Rightarrow> filesystem \<Rightarrow> js_error + content" where
  "readFile p fs = (case map_of fs p of Some (File c) \<Rightarrow> Inr c | _ \<Rightarrow> Inl FsError)"

definition writeFile :: "path \<Rightarrow> content \<Rightarrow> filesystem \<Rightarrow> js_error + filesystem" where
  \<comment> \<open>creates or replaces a regular file in an existing directory\<close>
  "writeFile p c fs =
     (if p \<noteq> [] \<and> is_dir (map_of fs (butlast p)) \<and> \<not> is_dir (map_of fs p)
      then Inr (AList.update p (File c) fs) else Inl FsError)"

definition unlink :: "path \<Rightarrow> filesystem \<Rightarrow> js_error + filesystem" where
  "unlink p fs =
     (case map_of fs p of Some (File c) \<Rightarrow> Inr (AList.delete p fs) | _ \<Rightarrow> Inl FsError)"

definition rename :: "path \<Rightarrow> path \<Rightarrow> filesystem \<Rightarrow> js_error + filesystem" where
  \<comment> \<open>moves a regular file, replacing a regular file at the target; the source of every
      rename in server.js is the staged upload, so moving a directory is not modelled
      and counts as a failure\<close>
  "rename src dst fs =
     (case map_of fs src of
        Some (File c) \<Rightarrow>
          if dst \<noteq> [] \<and> is_dir (map_of fs (butlast dst)) \<and> \<not> is_dir (map_of fs dst)
          then (if src = dst then Inr fs
                else Inr (AList.update dst (File c) (AList.delete src fs)))
          else Inl FsError
      | _ \<Rightarrow> Inl FsError)"

definition ancestors :: "path \<Rightarrow> path list" where
  \<comment> \<open>the path and every directory above it, the root first\<close>
  "ancestors p = map (\<lambda>n. take n p) [0 ..< Suc (length p)]"

definition mkdir_recursive :: "path \<Rightarrow> filesystem \<Rightarrow> js_error + filesystem" where
  \<comment> \<open>\<open>fs.mkdir(p, {recursive: true})\<close>: creates the missing directories down to \<open>p\<close>;
      fails when a regular file is in the way\<close>
  "mkdir_recursive p fs =
     (if \<exists>q \<in> set (ancestors p). is_file (map_of fs q) then Inl FsError
      else Inr (fs @ map (\<lambda>q. (q, Dir)) (filter (\<lambda>q. map_of fs q = None) (ancestors p))))"

section \<open>Requests and responses\<close>

text \<open>
  A request carries the text fields of the form, each absent (\<open>None\<close>) or a string, and
  at most one file in the field \<open>photo\<close>. An upload has the client's file name, its
  declared content type, its length in bytes and its content.
\<close>

record upload =
  originalname :: string
  mimetype :: string
  nbytes :: nat
  filedata :: content

record fields =
  f_name :: "string option"
  f_address :: "string option"
  f_contact :: "string option"
  f_date :: "string option"
  f_note :: "string option"

record request = fields +
  photo :: "upload option"

text \<open>What the handlers see after the upload middleware: \<open>req.body\<close> and \<open>req.file\<close>.\<close>

record staged_file =
  file_path :: path
  file_originalname :: string

record staged_request = fields +
  req_file :: "staged_file option"

record summary =
  s_id :: jsval
  s_name :: jsval
  s_date :: jsval
  s_photo :: string
  s_note :: string

datatype payload =
    Failure string
      \<comment> \<open>\<open>{success: false, error}\<close>\<close>
  | SuccessLink string string string
      \<comment> \<open>\<open>{success: true, id, link, message}\<close>\<close>
  | Listing "summary list"
  | Profile document

record response =
  status :: nat
  body :: payload

definition respond :: "nat \<Rightarrow> payload \<Rightarrow> response" where
  "respond s b = \<lparr>status = s, body = b\<rparr>"

section \<open>The upload middleware and the error handler\<close>

datatype upload_error =
    MulterError string
      \<comment> \<open>an error of the upload library, with its code\<close>
  | PlainError string

definition fileFilter :: "upload \<Rightarrow> upload_error + unit" where
  "fileFilter u =
     (if startsWith (mimetype u) ''image/'' then Inr ()
      else Inl (PlainError ''Only image files are allowed''))"

definition fileSize_limit :: nat where
  "fileSize_limit = 5 * 1024 * 1024"

definition staged_name :: "string \<Rightarrow> upload \<Rightarrow> string" where
  \<comment> \<open>the \<open>filename\<close> callback; \<open>stamp\<close> is the text of \<open>Date.now()\<close>, a dash and the
      random suffix\<close>
  "staged_name stamp u = stamp @ extname (originalname u)"

definition staged_path :: "string \<Rightarrow> upload \<Rightarrow> path" where
  "staged_path stamp u = join tempDir [staged_name stamp u]"

definition fields_of :: "request \<Rightarrow> staged_file option \<Rightarrow> staged_request" where
  "fields_of req f =
     \<lparr>f_name = f_name req, f_address = f_address req, f_contact = f_contact req,
      f_date = f_date req, f_note = f_note req, req_file = f\<rparr>"

definition upload_single :: "string \<Rightarrow> request \<Rightarrow> filesystem \<Rightarrow> (upload_error + staged_request) \<times> filesystem" where
  \<comment> \<open>\<open>upload.single('photo')\<close>: the filter, then the disk storage with its size limit;
      an upload over the limit leaves no file behind\<close>
  "upload_single stamp req fs =
     (case photo req of
        None \<Rightarrow> (Inr (fields_of req None), fs)
      | Some u \<Rightarrow>
          (case fileFilter u of
             Inl err \<Rightarrow> (Inl err, fs)
           | Inr _ \<Rightarrow>
               if nbytes u > fileSize_limit then (Inl (MulterError ''LIMIT_FILE_SIZE''), fs)
               else
                 (case writeFile (staged_path stamp u) (filedata u) fs of
                    Inl e \<Rightarrow> (Inl (PlainError ''write failed''), fs)
                  | Inr fs' \<Rightarrow>
                      (Inr (fields_of req
                         (Some \<lparr>file_path = staged_path stamp u,
                                file_originalname = originalname u\<rparr>)), fs'))))"

definition error_middleware :: "upload_error \<Rightarrow> response" where
  "error_middleware err =
     (case err of
        MulterError code \<Rightarrow>
          if code = ''LIMIT_FILE_SIZE'' then respond 400 (Failure ''File too large. Max 5MB'')
          else respond 500 (Failure ''Internal server error'')
      | PlainError msg \<Rightarrow> respond 500 (Failure ''Internal server error''))"

section \<open>Create\<close>

definition falsy :: "string option \<Rightarrow> bool" where
  \<comment> \<open>\<open>!v\<close> for a form field: absent or the empty string\<close>
  "falsy v = (v = None \<or> v = Some [])"

definition trim_field :: "string option \<Rightarrow> js_error + string" where
  \<comment> \<open>\<open>v.trim()\<close>: a TypeError on \<open>undefined\<close>\<close>
  "trim_field v = (case v of None \<Rightarrow> Inl TypeError | Some s \<Rightarrow> Inr (trim s))"

definition contact_value :: "string option \<Rightarrow> json" where
  \<comment> \<open>\<open>contact ? contact.trim() : null\<close>\<close>
  "contact_value c = (case c of None \<Rightarrow> JNull | Some s \<Rightarrow> if s = [] then JNull else JStr (trim s))"

definition photo_name :: "string \<Rightarrow> string" where
  \<comment> \<open>\<open>`photo${path.extname(originalname).toLowerCase()}`\<close>\<close>
  "photo_name orig = ''photo'' @ toLowerCase (extname orig)"

definition profile_link :: "string \<Rightarrow> string" where
  "profile_link pid = ''/profile.html?id='' @ pid"

definition create_body :: "string \<Rightarrow> string \<Rightarrow> string \<Rightarrow> staged_request \<Rightarrow> filesystem \<Rightarrow> (js_error \<times> filesystem) + (response \<times> filesystem)" where
  \<comment> \<open>the \<open>try\<close> block of the POST handler; \<open>Inl\<close> is a throw, with the file system as
      it was then. \<open>uuid\<close> is the result of \<open>uuidv4()\<close>, \<open>t1\<close> and \<open>t2\<close> the two readings
      of the clock.\<close>
  "create_body uuid t1 t2 req fs =
     (case (if falsy (f_name req) \<or> falsy (f_address req) \<or> falsy (f_date req) \<or> falsy (f_note req)
            then None else req_file req) of
        None \<Rightarrow> Inr (respond 400 (Failure ''All fields are required''), fs)
      | Some f \<Rightarrow>
          (case mkdir_recursive (getProfilePath uuid) fs of
             Inl e \<Rightarrow> Inl (e, fs)
           | Inr fs1 \<Rightarrow>
               let photoName = photo_name (file_originalname f);
                   photoPath = getPhotoPath uuid photoName
               in (case rename (file_path f) photoPath fs1 of
                     Inl e \<Rightarrow> Inl (e, fs1)
                   | Inr fs2 \<Rightarrow>
                       (case trim_field (f_name req) of Inl e \<Rightarrow> Inl (e, fs2) | Inr name \<Rightarrow>
                        case trim_field (f_address req) of Inl e \<Rightarrow> Inl (e, fs2) | Inr address \<Rightarrow>
                        case trim_field (f_note req) of Inl e \<Rightarrow> Inl (e, fs2) | Inr note \<Rightarrow>
                          let profileData = object
                                [(''id'', Some (JStr uuid)),
                                 (''name'', Some (JStr name)),
                                 (''address'', Some (JStr address)),
                                 (''contact'', Some (contact_value (f_contact req))),
                                 (''photo'', Some (JStr photoName)),
                                 (''date'', map_option JStr (f_date req)),
                                 (''note'', Some (JStr note)),
                                 (''createdAt'', Some (JStr t1)),
                                 (''updatedAt'', Some (JStr t2))]
                          in (case writeFile (getJsonPath uuid) (Doc profileData) fs2 of
                                Inl e \<Rightarrow> Inl (e, fs2)
                              | Inr fs3 \<Rightarrow>
                                  Inr (respond 200
                                        (SuccessLink uuid (profile_link uuid) ''Profile created successfully''),
                                       fs3))))))"

definition create_handler :: "string \<Rightarrow> string \<Rightarrow> string \<Rightarrow> staged_request \<Rightarrow> filesystem \<Rightarrow> response \<times> filesystem" where
  "create_handler uuid t1 t2 req fs =
     (case create_body uuid t1 t2 req fs of
        Inl (e, fs') \<Rightarrow> (respond 500 (Failure ''Failed to create profile''), fs')
      | Inr r \<Rightarrow> r)"

definition post_profiles :: "string \<Rightarrow> string \<Rightarrow> string \<Rightarrow> string \<Rightarrow> request \<Rightarrow> filesystem \<Rightarrow> response \<times> filesystem" where
  \<comment> \<open>\<open>POST /api/profiles\<close>: the upload middleware, then the handler or the error handler\<close>
  "post_profiles stamp uuid t1 t2 req fs =
     (case upload_single stamp req fs of
        (Inl err, fs') \<Rightarrow> (error_middleware err, fs')
      | (Inr sreq, fs') \<Rightarrow> create_handler uuid t1 t2 sreq fs')"

section \<open>List\<close>

definition truncate_note :: "string \<Rightarrow> string" where
  \<comment> \<open>\<open>note.substring(0, 50) + (note.length > 50 ? '...' : '')\<close>\<close>
  "truncate_note s = take 50 s @ (if length s > 50 then ''...'' else [])"

definition photo_url :: "document \<Rightarrow> string" where
  \<comment> \<open>\<open>`/images/${data.id}/${data.photo}`\<close>\<close>
  "photo_url d = ''/images/'' @ to_string (map_of d ''id'') @ ''/'' @ to_string (map_of d ''photo'')"

definition summary_of :: "document \<Rightarrow> js_error + summary" where
  \<comment> \<open>the object pushed for one profile; \<open>data.note.substring\<close> is a TypeError unless
      the note is a string\<close>
  "summary_of d =
     (case map_of d ''note'' of
        Some (JStr s) \<Rightarrow>
          Inr \<lparr>s_id = map_of d ''id'', s_name = map_of d ''name'', s_date = map_of d ''date'',
               s_photo = photo_url d, s_note = truncate_note s\<rparr>
      | _ \<Rightarrow> Inl TypeError)"

definition read_json :: "path \<Rightarrow> filesystem \<Rightarrow> js_error + document" where
  \<comment> \<open>\<open>JSON.parse(await fs.readFile(p, 'utf8'))\<close>\<close>
  "read_json p fs = (case readFile p fs of Inl e \<Rightarrow> Inl e | Inr c \<Rightarrow> JSON_parse c)"

fun scan_folders :: "filesystem \<Rightarrow> string list \<Rightarrow> js_error + summary list" where
  \<comment> \<open>the \<open>for\<close> loop over the folders: the summaries pushed, in order, or the first throw\<close>
  "scan_folders fs [] = Inr []"
| "scan_folders fs (folder # rest) =
     (if pathExists (getJsonPath folder) fs then
        (case read_json (getJsonPath folder) fs of
           Inl e \<Rightarrow> Inl e
         | Inr d \<Rightarrow>
             (case summary_of d of
                Inl e \<Rightarrow> Inl e
              | Inr p \<Rightarrow>
                  (case scan_folders fs rest of Inl e \<Rightarrow> Inl e | Inr ps \<Rightarrow> Inr (p # ps))))
      else scan_folders fs rest)"

text \<open>
  \<open>new Date(v)\<close> as its time value, \<open>None\<close> for an invalid date. How a string is read
  as a date is the host's business: \<open>D\<close> is that function, a parameter of the model.
\<close>

definition new_Date :: "(string \<Rightarrow> int option) \<Rightarrow> jsval \<Rightarrow> int option" where
  "new_Date D v = (case v of None \<Rightarrow> None | Some JNull \<Rightarrow> Some 0 | Some (JStr s) \<Rightarrow> D s)"

definition by_date :: "(string \<Rightarrow> int option) \<Rightarrow> summary \<Rightarrow> summary \<Rightarrow> int option" where
  \<comment> \<open>\<open>(a, b) => new Date(b.date) - new Date(a.date)\<close>; \<open>None\<close> is NaN\<close>
  "by_date D a b =
     (case (new_Date D (s_date b), new_Date D (s_date a)) of
        (Some tb, Some ta) \<Rightarrow> Some (tb - ta)
      | _ \<Rightarrow> None)"

text \<open>
  \<open>Array.prototype.sort\<close> is stable and reads a NaN from the comparator as 0. It is
  modelled as the stable insertion sort: an element moves behind the elements the
  comparator puts strictly before it. For a comparator that orders the elements
  consistently this is the result the language prescribes.
\<close>

definition positive :: "int option \<Rightarrow> bool" where
  "positive r = (case r of None \<Rightarrow> False | Some n \<Rightarrow> n > 0)"

fun insert_by :: "('a \<Rightarrow> 'a \<Rightarrow> int option) \<Rightarrow> 'a \<Rightarrow> 'a list \<Rightarrow> 'a list" where
  "insert_by cmp x [] = [x]"
| "insert_by cmp x (y # ys) =
     (if positive (cmp x y) then y # insert_by cmp x ys else x # y # ys)"

definition sort_by :: "('a \<Rightarrow> 'a \<Rightarrow> int option) \<Rightarrow> 'a list \<Rightarrow> 'a list" where
  "sort_by cmp xs = foldr (insert_by cmp) xs []"

definition not_older :: "(string \<Rightarrow> int option) \<Rightarrow> summary \<Rightarrow> summary \<Rightarrow> bool" where
  \<comment> \<open>both dates are valid and the first is the same or later: the order of a listing
      that is sorted by date, newest first\<close>
  "not_older D a b =
     (case (new_Date D (s_date a), new_Date D (s_date b)) of
        (Some x, Some y) \<Rightarrow> y \<le> x
      | _ \<Rightarrow> False)"

definition list_from :: "(string \<Rightarrow> int option) \<Rightarrow> filesystem \<Rightarrow> js_error + string list \<Rightarrow> response" where
  \<comment> \<open>the handler once the folders are read: the loop, the sort, the response\<close>
  "list_from D fs folders =
     (case (case folders of Inl e \<Rightarrow> Inl e | Inr fl \<Rightarrow> scan_folders fs fl) of
        Inl e \<Rightarrow> respond 500 (Failure ''Failed to fetch profiles'')
      | Inr profiles \<Rightarrow> respond 200 (Listing (sort_by (by_date D) profiles)))"

definition store_folders :: "filesystem \<Rightarrow> js_error + string list" where
  \<comment> \<open>\<open>folders\<close>: the entries of the store, none when the store does not exist\<close>
  "store_folders fs = (if pathExists profilesDir fs then readdir profilesDir fs else Inr [])"

definition list_handler :: "(string \<Rightarrow> int option) \<Rightarrow> filesystem \<Rightarrow> response" where
  \<comment> \<open>\<open>GET /api/profiles\<close>\<close>
  "list_handler D fs = list_from D fs (store_folders fs)"

section \<open>Get\<close>

definition get_handler :: "string \<Rightarrow> filesystem \<Rightarrow> response" where
  \<comment> \<open>\<open>GET /api/profiles/:id\<close>\<close>
  "get_handler pid fs =
     (if pathExists (getJsonPath pid) fs then
        (case read_json (getJsonPath pid) fs of
           Inl e \<Rightarrow> respond 500 (Failure ''Failed to fetch profile'')
         | Inr d \<Rightarrow> respond 200 (Profile (assign ''photoUrl'' (Some (JStr (photo_url d))) d)))
      else respond 404 (Failure ''Profile not found''))"

section \<open>Update\<close>

definition update_fields :: "string \<Rightarrow> staged_request \<Rightarrow> document \<Rightarrow> js_error + document" where
  \<comment> \<open>the six assignments to \<open>existingData\<close>; \<open>now\<close> is the reading of the clock. A
      \<open>trim\<close> of an absent field throws; nothing has been written by then, so the order
      of the throws does not show.\<close>
  "update_fields now req d =
     (case trim_field (f_name req) of Inl e \<Rightarrow> Inl e | Inr name \<Rightarrow>
      case trim_field (f_address req) of Inl e \<Rightarrow> Inl e | Inr address \<Rightarrow>
      case trim_field (f_note req) of Inl e \<Rightarrow> Inl e | Inr note \<Rightarrow>
        Inr (assign ''updatedAt'' (Some (JStr now))
            (assign ''note'' (Some (JStr note))
            (assign ''date'' (map_option JStr (f_date req))
            (assign ''contact'' (Some (contact_value (f_contact req)))
            (assign ''address'' (Some (JStr address))
            (assign ''name'' (Some (JStr name)) d)))))))"

definition replace_photo :: "string \<Rightarrow> staged_file \<Rightarrow> document \<Rightarrow> filesystem \<Rightarrow> (js_error \<times> filesystem) + (document \<times> filesystem)" where
  \<comment> \<open>the body of \<open>if (req.file)\<close>; \<open>path.join\<close> throws a TypeError unless the recorded
      photo name is a string\<close>
  "replace_photo pid f d fs =
     (case map_of d ''photo'' of
        Some (JStr old) \<Rightarrow>
          let oldPhotoPath = getPhotoPath pid old
          in (case (if pathExists oldPhotoPath fs then unlink oldPhotoPath fs else Inr fs) of
                Inl e \<Rightarrow> Inl (e, fs)
              | Inr fs1 \<Rightarrow>
                  let newPhotoName = photo_name (file_originalname f);
                      newPhotoPath = getPhotoPath pid newPhotoName
                  in (case rename (file_path f) newPhotoPath fs1 of
                        Inl e \<Rightarrow> Inl (e, fs1)
                      | Inr fs2 \<Rightarrow> Inr (assign ''photo'' (Some (JStr newPhotoName)) d, fs2)))
      | _ \<Rightarrow> Inl (TypeError, fs))"

definition update_body :: "string \<Rightarrow> string \<Rightarrow> staged_request \<Rightarrow> filesystem \<Rightarrow> (js_error \<times> filesystem) + (response \<times> filesystem)" where
  \<comment> \<open>the \<open>try\<close> block of the PUT handler\<close>
  "update_body now pid req fs =
     (if \<not> pathExists (getJsonPath pid) fs
      then Inr (respond 404 (Failure ''Profile not found''), fs)
      else
        (case read_json (getJsonPath pid) fs of
           Inl e \<Rightarrow> Inl (e, fs)
         | Inr existingData \<Rightarrow>
             (case update_fields now req existingData of
                Inl e \<Rightarrow> Inl (e, fs)
              | Inr d1 \<Rightarrow>
                  (case (case req_file req of
                           None \<Rightarrow> Inr (d1, fs)
                         | Some f \<Rightarrow> replace_photo pid f d1 fs) of
                     Inl err \<Rightarrow> Inl err
                   | Inr (d2, fs2) \<Rightarrow>
                       (case writeFile (getJsonPath pid) (Doc d2) fs2 of
                          Inl e \<Rightarrow> Inl (e, fs2)
                        | Inr fs3 \<Rightarrow>
                            Inr (respond 200
                                  (SuccessLink pid (profile_link pid) ''Profile updated successfully''),
                                 fs3))))))"

definition update_handler :: "string \<Rightarrow> string \<Rightarrow> staged_request \<Rightarrow> filesystem \<Rightarrow> response \<times> filesystem" where
  "update_handler now pid req fs =
     (case update_body now pid req fs of
        Inl (e, fs') \<Rightarrow> (respond 500 (Failure ''Failed to update profile''), fs')
      | Inr r \<Rightarrow> r)"

definition put_profile :: "string \<Rightarrow> string \<Rightarrow> string \<Rightarrow> request \<Rightarrow> filesystem \<Rightarrow> response \<times> filesystem" where
  \<comment> \<open>\<open>PUT /api/profiles/:id\<close>: the upload middleware, then the handler or the error handler\<close>
  "put_profile stamp now pid req fs =
     (case upload_single stamp req fs of
        (Inl err, fs') \<Rightarrow> (error_middleware err, fs')
      | (Inr sreq, fs') \<Rightarrow> update_handler now pid sreq fs')"

section \<open>Example data\<close>

text \<open>
  In the examples \<open>u1\<close>, \<open>u2\<close>, \<open>u3\<close> stand for generated ids and \<open>T1\<close>, \<open>T2\<close>, ...
  for readings of the clock; the stamps of the staged uploads have the form that the
  \<open>filename\<close> callback gives them.
\<close>

text \<open>A store with no profile yet: the directories that \<open>ensureDirectories\<close> creates.\<close>

definition empty_store :: filesystem where
  "empty_store =
     [([], Dir), ([''srv''], Dir), ([''srv'', ''backend''], Dir),
      ([''srv'', ''backend'', ''data''], Dir),
      ([''srv'', ''backend'', ''data'', ''profiles''], Dir),
      ([''srv'', ''backend'', ''temp''], Dir)]"

definition jpeg_upload :: upload where
  "jpeg_upload =
     \<lparr>originalname = ''Cat.JPG'', mimetype = ''image/jpeg'', nbytes = 2048,
      filedata = Bytes ''JFIF''\<rparr>"

definition text_upload :: upload where
  "text_upload =
     \<lparr>originalname = ''notes.txt'', mimetype = ''text/plain'', nbytes = 12,
      filedata = Bytes ''hello world!''\<rparr>"

definition form :: "string option \<Rightarrow> string option \<Rightarrow> string option \<Rightarrow> string option \<Rightarrow> string option \<Rightarrow> upload option \<Rightarrow> request" where
  "form n a c d t u =
     \<lparr>f_name = n, f_address = a, f_contact = c, f_date = d, f_note = t, photo = u\<rparr>"

text \<open>
  The store after the profile \<open>u1\<close> was created from the form (Ann, X, no contact,
  2024-01-01, hello) with the upload \<open>Cat.JPG\<close>.
\<close>

definition ann_record :: document where
  "ann_record =
     [(''id'', JStr ''u1''), (''name'', JStr ''Ann''), (''address'', JStr ''X''),
      (''contact'', JNull), (''photo'', JStr ''photo.jpg''), (''date'', JStr ''2024-01-01''),
      (''note'', JStr ''hello''), (''createdAt'', JStr ''T1''), (''updatedAt'', JStr ''T2'')]"

definition store_u1 :: filesystem where
  "store_u1 = empty_store @
     [([''srv'', ''backend'', ''data'', ''profiles'', ''u1''], Dir),
      ([''srv'', ''backend'', ''data'', ''profiles'', ''u1'', ''photo.jpg''], File (Bytes ''JFIF'')),
      ([''srv'', ''backend'', ''data'', ''profiles'', ''u1'', ''profile.json''], File (Doc ann_record))]"

text \<open>An update of the text fields only, and one that also brings the image \<open>Dog.PNG\<close>,
  staged by the upload middleware.\<close>

definition text_update :: staged_request where
  "text_update =
     \<lparr>f_name = Some ''Ann B'', f_address = Some ''Y'', f_contact = Some ''555'',
      f_date = Some ''2024-02-02'', f_note = Some ''changed'', req_file = None\<rparr>"

definition staged_png :: path where
  "staged_png = [''srv'', ''backend'', ''temp'', ''1700000000001-q7w8e9r0t.PNG'']"

definition photo_update :: staged_request where
  "photo_update =
     \<lparr>f_name = Some ''Ann B'', f_address = Some ''Y'', f_contact = Some ''555'',
      f_date = Some ''2024-02-02'', f_note = Some ''changed'',
      req_file = Some \<lparr>file_path = staged_png, file_originalname = ''Dog.PNG''\<rparr>\<rparr>"

definition png_upload :: upload where
  "png_upload =
     \<lparr>originalname = ''Dog.PNG'', mimetype = ''image/png'', nbytes = 4096,
      filedata = Bytes ''PNG''\<rparr>"

definition store_u1_staged :: filesystem where
  "store_u1_staged = store_u1 @ [(staged_png, File (Bytes ''PNG''))]"

definition updated_u1 :: response where
  "updated_u1 =
     \<lparr>status = 200,
      body = SuccessLink ''u1'' ''/profile.html?id=u1'' ''Profile updated successfully''\<rparr>"

definition store_u1_text_updated :: filesystem where
  "store_u1_text_updated = empty_store @
     [([''srv'', ''backend'', ''data'', ''profiles'', ''u1''], Dir),
      ([''srv'', ''backend'', ''data'', ''profiles'', ''u1'', ''photo.jpg''], File (Bytes ''JFIF'')),
      ([''srv'', ''backend'', ''data'', ''profiles'', ''u1'', ''profile.json''],
       File (Doc
         [(''id'', JStr ''u1''), (''name'', JStr ''Ann B''), (''address'', JStr ''Y''),
          (''contact'', JStr ''555''), (''photo'', JStr ''photo.jpg''),
          (''date'', JStr ''2024-02-02''), (''note'', JStr ''changed''),
          (''createdAt'', JStr ''T1''), (''updatedAt'', JStr ''T9'')]))]"

definition store_u1_photo_updated :: filesystem where
  "store_u1_photo_updated = empty_store @
     [([''srv'', ''backend'', ''data'', ''profiles'', ''u1''], Dir),
      ([''srv'', ''backend'', ''data'', ''profiles'', ''u1'', ''profile.json''],
       File (Doc
         [(''id'', JStr ''u1''), (''name'', JStr ''Ann B''), (''address'', JStr ''Y''),
          (''contact'', JStr ''555''), (''photo'', JStr ''photo.png''),
          (''date'', JStr ''2024-02-02''), (''note'', JStr ''changed''),
          (''createdAt'', JStr ''T1''), (''updatedAt'', JStr ''T9'')])),
      ([''srv'', ''backend'', ''data'', ''profiles'', ''u1'', ''photo.png''], File (Bytes ''PNG''))]"

text \<open>The upload \<open>Cat.JPG\<close> as the middleware stages it, and the response to a Create.\<close>

definition staged_jpg :: path where
  "staged_jpg = [''srv'', ''backend'', ''temp'', ''1700000000000-k3j9x2a1b.JPG'']"

definition store_staged :: filesystem where
  "store_staged = empty_store @ [(staged_jpg, File (Bytes ''JFIF''))]"

definition staged_form :: "string option \<Rightarrow> string option \<Rightarrow> string option \<Rightarrow> string option \<Rightarrow> string option \<Rightarrow> staged_request" where
  "staged_form n a c d t =
     \<lparr>f_name = n, f_address = a, f_contact = c, f_date = d, f_note = t,
      req_file = Some \<lparr>file_path = staged_jpg, file_originalname = ''Cat.JPG''\<rparr>\<rparr>"

definition created_u1 :: response where
  "created_u1 =
     \<lparr>status = 200,
      body = SuccessLink ''u1'' ''/profile.html?id=u1'' ''Profile created successfully''\<rparr>"

text \<open>An image whose file name has no extension.\<close>

definition readme_upload :: upload where
  "readme_upload =
     \<lparr>originalname = ''README'', mimetype = ''image/png'', nbytes = 512,
      filedata = Bytes ''PNG''\<rparr>"

text \<open>
  The host's reading of the two dates of the examples, in milliseconds since the epoch;
  the other strings used as dates in the examples are not dates to it.
\<close>

definition example_dates :: "string \<Rightarrow> int option" where
  "example_dates s =
     (if s = ''2024-01-01'' then Some 1704067200000
      else if s = ''2025-01-01'' then Some 1735689600000
      else None)"

text \<open>A second profile with a note of 60 characters, and a folder without metadata.\<close>

definition bob_note :: string where
  "bob_note = ''0123456789012345678901234567890123456789012345678901234567890''"

definition bob_record :: document where
  "bob_record =
     [(''id'', JStr ''u2''), (''name'', JStr ''Bob''), (''address'', JStr ''Y''),
      (''contact'', JStr ''555''), (''photo'', JStr ''photo.png''), (''date'', JStr ''2025-01-01''),
      (''note'', JStr bob_note), (''createdAt'', JStr ''T3''), (''updatedAt'', JStr ''T4'')]"

definition store_two :: filesystem where
  "store_two = store_u1 @
     [([''srv'', ''backend'', ''data'', ''profiles'', ''u2''], Dir),
      ([''srv'', ''backend'', ''data'', ''profiles'', ''u2'', ''photo.png''], File (Bytes ''PNG'')),
      ([''srv'', ''backend'', ''data'', ''profiles'', ''u2'', ''profile.json''], File (Doc bob_record)),
      ([''srv'', ''backend'', ''data'', ''profiles'', ''lost+found''], Dir)]"

definition ann_summary :: summary where
  "ann_summary =
     \<lparr>s_id = Some (JStr ''u1''), s_name = Some (JStr ''Ann''), s_date = Some (JStr ''2024-01-01''),
      s_photo = ''/images/u1/photo.jpg'', s_note = ''hello''\<rparr>"

definition bob_summary :: summary where
  "bob_summary =
     \<lparr>s_id = Some (JStr ''u2''), s_name = Some (JStr ''Bob''), s_date = Some (JStr ''2025-01-01''),
      s_photo = ''/images/u2/photo.png'',
      s_note = ''01234567890123456789012345678901234567890123456789...''\<rparr>"

text \<open>Stores in a partial state: a metadata file cut short, a profile whose photo is
  missing, a photo without metadata.\<close>

definition store_cut_short :: filesystem where
  "store_cut_short = store_u1 @
     [([''srv'', ''backend'', ''data'', ''profiles'', ''u2''], Dir),
      ([''srv'', ''backend'', ''data'', ''profiles'', ''u2'', ''photo.png''], File (Bytes ''PNG'')),
      ([''srv'', ''backend'', ''data'', ''profiles'', ''u2'', ''profile.json''],
       File (Bytes ''{''))]"

definition store_damaged :: filesystem where
  "store_damaged = empty_store @
     [([''srv'', ''backend'', ''data'', ''profiles'', ''u2''], Dir),
      ([''srv'', ''backend'', ''data'', ''profiles'', ''u2'', ''profile.json''], File (Bytes []))]"

definition store_u1_no_photo :: filesystem where
  "store_u1_no_photo = empty_store @
     [([''srv'', ''backend'', ''data'', ''profiles'', ''u1''], Dir),
      ([''srv'', ''backend'', ''data'', ''profiles'', ''u1'', ''profile.json''], File (Doc ann_record))]"

definition store_u1_no_photo_staged :: filesystem where
  "store_u1_no_photo_staged = store_u1_no_photo @ [(staged_png, File (Bytes ''PNG''))]"

definition store_photo_only :: filesystem where
  "store_photo_only = empty_store @
     [([''srv'', ''backend'', ''data'', ''profiles'', ''u3''], Dir),
      ([''srv'', ''backend'', ''data'', ''profiles'', ''u3'', ''photo.jpg''], File (Bytes ''JFIF''))]"

section \<open>Basic facts\<close>

lemma status_respond [simp]: "status (respond n b) = n" "body (respond n b) = b"
  by (simp_all add: respond_def)

lemma map_of_assign [simp]: "map_of (assign k v d) k' = (if k' = k then v else map_of d k')"
  by (cases v) (simp_all add: assign_def update_conv' delete_conv')

lemma map_of_writeFile:
  "writeFile p c fs = Inr fs' \<Longrightarrow> map_of fs' = (map_of fs)(p \<mapsto> File c)"
  by (auto simp: writeFile_def update_conv' split: if_splits)

lemma map_of_unlink:
  "unlink p fs = Inr fs' \<Longrightarrow> map_of fs' = (map_of fs)(p := None)"
  by (auto simp: unlink_def delete_conv' split: option.splits node.splits)

lemma map_of_rename:
  "rename src dst fs = Inr fs' \<Longrightarrow>
     \<exists>c. map_of fs src = Some (File c) \<and>
         map_of fs' = (if src = dst then map_of fs else ((map_of fs)(src := None))(dst \<mapsto> File c))"
  by (auto simp: rename_def update_conv' delete_conv' split: option.splits node.splits if_splits)

lemma read_json_Inr:
  "read_json p fs = Inr d \<longleftrightarrow> map_of fs p = Some (File (Doc d))"
  by (auto simp: read_json_def readFile_def JSON_parse_def split: option.splits node.splits content.splits)

lemma split_path_plain: "CHR ''/'' \<notin> set s \<Longrightarrow> split_path s = [s]"
  by (induction s) auto

lemma join_snoc: "plain s \<Longrightarrow> join base (xs @ [s]) = join base xs @ [s]"
  by (simp add: join_def plain_def split_path_plain norm_step_def)

lemma getJsonPath_eq: "getJsonPath pid = getProfilePath pid @ [''profile.json'']"
  using join_snoc [of "''profile.json''" profilesDir "[pid]"]
  by (simp add: getJsonPath_def getProfilePath_def plain_def)

lemma getPhotoPath_eq: "plain s \<Longrightarrow> getPhotoPath pid s = getProfilePath pid @ [s]"
  using join_snoc [of s profilesDir "[pid]"]
  by (simp add: getPhotoPath_def getProfilePath_def)

lemma lower_char_not_slash: "lower_char c = CHR ''/'' \<Longrightarrow> c = CHR ''/''"
proof -
  assume a: "lower_char c = CHR ''/''"
  let ?n = "of_char c :: nat"
  show ?thesis
  proof (cases "(65 \<le> ?n \<and> ?n \<le> 90) \<or> (192 \<le> ?n \<and> ?n \<le> 222 \<and> ?n \<noteq> 215)")
    case True
    then have "lower_char c = char_of (?n + 32)" by (simp add: lower_char_def Let_def)
    with a have "(of_char (char_of (?n + 32) :: char) :: nat) = of_char (CHR ''/'')" by simp
    then have m: "(?n + 32) mod 256 = 47" by (simp add: of_char_of)
    from True have "?n + 32 < 256" by auto
    then have "(?n + 32) mod 256 = ?n + 32" by simp
    with m True show ?thesis by auto
  next
    case False
    with a show ?thesis by (simp add: lower_char_def Let_def)
  qed
qed

lemma extname_form:
  "extname s = [] \<or> (\<exists>e. extname s = CHR ''.'' # e \<and> CHR ''.'' \<notin> set e \<and> CHR ''/'' \<notin> set e)"
proof -
  let ?b = "basename_part s"
  let ?e = "rev (takeWhile (\<lambda>c. c \<noteq> CHR ''.'') (rev ?b))"
  have b: "CHR ''/'' \<notin> set ?b"
    by (auto simp: basename_part_def dest: set_takeWhileD)
  have "CHR ''.'' \<notin> set ?e" by (auto dest: set_takeWhileD)
  moreover have "set ?e \<subseteq> set ?b" by (auto dest: set_takeWhileD)
  ultimately show ?thesis using b by (auto simp: extname_def Let_def)
qed

lemma photo_name_plain: "plain (photo_name orig)"
proof -
  have "CHR ''/'' \<notin> set (extname orig)" using extname_form [of orig] by auto
  then have "CHR ''/'' \<notin> set (toLowerCase (extname orig))"
    using lower_char_not_slash by (fastforce simp: toLowerCase_def)
  then show ?thesis by (simp add: plain_def photo_name_def)
qed

lemma photo_name_not_json: "photo_name orig \<noteq> ''profile.json''"
  by (simp add: photo_name_def)

lemma new_photo_path_not_json: "getPhotoPath pid (photo_name orig) \<noteq> getJsonPath pid"
  by (simp add: getPhotoPath_eq [OF photo_name_plain] getJsonPath_eq photo_name_not_json)

lemma upload_single_accepts:
  assumes "upload_single stamp req fs = (Inr sreq, fs1)"
  shows "f_name sreq = f_name req \<and> f_address sreq = f_address req \<and> f_contact sreq = f_contact req
         \<and> f_date sreq = f_date req \<and> f_note sreq = f_note req
         \<and> (case photo req of
               None \<Rightarrow> req_file sreq = None \<and> fs1 = fs
             | Some u \<Rightarrow>
                 req_file sreq = Some \<lparr>file_path = staged_path stamp u, file_originalname = originalname u\<rparr>
                 \<and> writeFile (staged_path stamp u) (filedata u) fs = Inr fs1)"
  using assms
  by (auto simp: upload_single_def fields_of_def split: option.splits sum.splits if_splits)

lemma upload_single_rejects:
  "upload_single stamp req fs = (Inl err, fs1) \<Longrightarrow> fs1 = fs \<and> photo req \<noteq> None"
  by (auto simp: upload_single_def split: option.splits sum.splits if_splits)

lemma error_middleware_status: "status (error_middleware err) \<noteq> 200"
  by (auto simp: error_middleware_def split: upload_error.splits)

lemma create_handler_invalid:
  "falsy (f_name sreq) \<or> falsy (f_address sreq) \<or> falsy (f_date sreq) \<or> falsy (f_note sreq)
             \<or> req_file sreq = None \<Longrightarrow>
   create_handler uuid t1 t2 sreq fs = (respond 400 (Failure ''All fields are required''), fs)"
  by (auto simp: create_handler_def create_body_def)

lemma create_handler_status:
  "status (fst (create_handler uuid t1 t2 sreq fs)) = 400 \<longleftrightarrow> 
    (falsy (f_name sreq) \<or> falsy (f_address sreq) \<or> falsy (f_date sreq) \<or> falsy (f_note sreq)
             \<or> req_file sreq = None)"
  by (auto simp: create_handler_def create_body_def Let_def split: option.splits sum.splits if_splits prod.splits)

lemma create_handler_200:
  assumes "create_handler uuid t1 t2 sreq fs = (resp, fs')" "status resp = 200"
  shows "\<exists>f n a d t fs2. req_file sreq = Some f \<and> f_name sreq = Some n \<and> f_address sreq = Some a
           \<and> f_date sreq = Some d \<and> f_note sreq = Some t \<and> n \<noteq> [] \<and> a \<noteq> [] \<and> d \<noteq> [] \<and> t \<noteq> []
           \<and> writeFile (getJsonPath uuid)
                (Doc [(''id'', JStr uuid), (''name'', JStr (trim n)), (''address'', JStr (trim a)),
                      (''contact'', contact_value (f_contact sreq)),
                      (''photo'', JStr (photo_name (file_originalname f))),
                      (''date'', JStr d), (''note'', JStr (trim t)),
                      (''createdAt'', JStr t1), (''updatedAt'', JStr t2)]) fs2 = Inr fs'"
  using assms
  by (auto simp: create_handler_def create_body_def Let_def falsy_def trim_field_def object_def
       split: option.splits sum.splits if_splits prod.splits)

lemma replace_photo_Inr:
  assumes "replace_photo pid f d fs = Inr (d2, fs2)"
  shows "\<exists>old fsa. map_of d ''photo'' = Some (JStr old)
           \<and> (if pathExists (getPhotoPath pid old) fs then unlink (getPhotoPath pid old) fs = Inr fsa else fsa = fs)
           \<and> rename (file_path f) (getPhotoPath pid (photo_name (file_originalname f))) fsa = Inr fs2
           \<and> d2 = assign ''photo'' (Some (JStr (photo_name (file_originalname f)))) d"
  using assms
  by (auto simp: replace_photo_def Let_def split: option.splits json.splits sum.splits if_splits)

lemma update_fields_Inr:
  assumes "update_fields now sreq d = Inr d1"
  shows "\<exists>n a t. f_name sreq = Some n \<and> f_address sreq = Some a \<and> f_note sreq = Some t \<and>
     d1 = assign ''updatedAt'' (Some (JStr now))
            (assign ''note'' (Some (JStr (trim t)))
            (assign ''date'' (map_option JStr (f_date sreq))
            (assign ''contact'' (Some (contact_value (f_contact sreq)))
            (assign ''address'' (Some (JStr (trim a)))
            (assign ''name'' (Some (JStr (trim n))) d)))))"
  using assms
  by (auto simp: update_fields_def trim_field_def split: option.splits sum.splits)

lemma update_handler_200:
  assumes "update_handler now pid sreq fs1 = (resp, fs')" "status resp = 200"
  shows "\<exists>old d1 d2 fs2. map_of fs1 (getJsonPath pid) = Some (File (Doc old))
          \<and> update_fields now sreq old = Inr d1
          \<and> (case req_file sreq of None \<Rightarrow> d2 = d1 \<and> fs2 = fs1
               | Some f \<Rightarrow> replace_photo pid f d1 fs1 = Inr (d2, fs2))
          \<and> writeFile (getJsonPath pid) (Doc d2) fs2 = Inr fs'"
  using assms
  by (auto simp: update_handler_def update_body_def read_json_Inr [symmetric]
       split: option.splits sum.splits if_splits prod.splits)

lemma post_profiles_200:
  assumes "post_profiles stamp uuid t1 t2 req fs = (resp, fs')" "status resp = 200"
  shows "\<exists>sreq fs1. upload_single stamp req fs = (Inr sreq, fs1) \<and> create_handler uuid t1 t2 sreq fs1 = (resp, fs')"
  using assms error_middleware_status
  by (auto simp: post_profiles_def split: prod.splits sum.splits)

lemma put_profile_200:
  assumes "put_profile stamp now pid req fs = (resp, fs')" "status resp = 200"
  shows "\<exists>sreq fs1. upload_single stamp req fs = (Inr sreq, fs1) \<and> update_handler now pid sreq fs1 = (resp, fs')"
  using assms error_middleware_status
  by (auto simp: put_profile_def split: prod.splits sum.splits)

subsection \<open>Sorting and scanning\<close>

lemma mset_insert_by: "mset (insert_by cmp x ys) = add_mset x (mset ys)"
  by (induction ys) auto

lemma mset_sort_by: "mset (sort_by cmp xs) = mset xs"
  by (induction xs) (auto simp: sort_by_def mset_insert_by)

lemma set_insert_by: "set (insert_by cmp x ys) = insert x (set ys)"
  by (simp add: mset_insert_by flip: set_mset_mset)

lemma set_sort_by: "set (sort_by cmp xs) = set xs"
  by (simp add: mset_sort_by flip: set_mset_mset)

lemma positive_by_date:
  "new_Date D (s_date a) = Some ta \<Longrightarrow> new_Date D (s_date b) = Some tb \<Longrightarrow>
     positive (by_date D a b) \<longleftrightarrow> ta < tb"
  by (simp add: positive_def by_date_def)

lemma not_older_iff:
  "new_Date D (s_date a) = Some ta \<Longrightarrow> new_Date D (s_date b) = Some tb \<Longrightarrow>
     not_older D a b \<longleftrightarrow> tb \<le> ta"
  by (simp add: not_older_def)

lemma not_older_trans: "not_older D a b \<Longrightarrow> not_older D b c \<Longrightarrow> not_older D a c"
  by (auto simp: not_older_def split: option.splits)

lemma sorted_insert_by:
  assumes "new_Date D (s_date x) \<noteq> None"
      and "\<forall>y \<in> set ys. new_Date D (s_date y) \<noteq> None"
      and "sorted_wrt (not_older D) ys"
  shows "sorted_wrt (not_older D) (insert_by (by_date D) x ys)"
  using assms
proof (induction ys)
  case Nil
  then show ?case by simp
next
  case (Cons y ys)
  from Cons.prems obtain tx ty where tx: "new_Date D (s_date x) = Some tx"
    and ty: "new_Date D (s_date y) = Some ty" by auto
  show ?case
  proof (cases "positive (by_date D x y)")
    case True
    with tx ty have "tx < ty" by (simp add: positive_by_date)
    with tx ty have yx: "not_older D y x" by (simp add: not_older_iff)
    from Cons have "sorted_wrt (not_older D) (insert_by (by_date D) x ys)" by simp
    with True yx Cons.prems(3) show ?thesis by (auto simp: set_insert_by)
  next
    case False
    with tx ty have "ty \<le> tx" by (simp add: positive_by_date)
    with tx ty have xy: "not_older D x y" by (simp add: not_older_iff)
    with Cons.prems(3) have "\<forall>z \<in> set ys. not_older D x z"
      by (auto intro: not_older_trans)
    with False xy Cons.prems(3) show ?thesis by simp
  qed
qed

lemma sorted_sort_by:
  "\<forall>y \<in> set xs. new_Date D (s_date y) \<noteq> None \<Longrightarrow> sorted_wrt (not_older D) (sort_by (by_date D) xs)"
proof (induction xs)
  case Nil
  then show ?case by (simp add: sort_by_def)
next
  case (Cons x xs)
  then have "sorted_wrt (not_older D) (sort_by (by_date D) xs)" by simp
  with Cons.prems show ?case
    using sorted_insert_by [of D x "sort_by (by_date D) xs"]
    by (simp add: sort_by_def set_sort_by [unfolded sort_by_def])
qed

lemma scan_folders_agree:
  "\<forall>f. map_of fs (getJsonPath f) = map_of fs' (getJsonPath f) \<Longrightarrow>
     scan_folders fs fl = scan_folders fs' fl"
  by (induction fl) (simp_all add: pathExists_def read_json_def readFile_def cong: sum.case_cong)

lemma scan_folders_skip:
  "scan_folders fs fl = scan_folders fs (filter (\<lambda>f. pathExists (getJsonPath f) fs) fl)"
  by (induction fl) (simp_all cong: sum.case_cong)

lemma scan_folders_unreadable:
  assumes "f \<in> set fl" and "pathExists (getJsonPath f) fs"
      and "\<forall>d. map_of fs (getJsonPath f) \<noteq> Some (File (Doc d))"
  shows "isl (scan_folders fs fl)"
  using assms
proof (induction fl)
  case Nil
  then show ?case by simp
next
  case (Cons g fl)
  show ?case
  proof (cases "g = f")
    case True
    from Cons.prems(3) have "isl (read_json (getJsonPath f) fs)"
      by (cases "read_json (getJsonPath f) fs") (auto simp: read_json_Inr)
    with True Cons.prems(2) show ?thesis by (auto split: sum.splits)
  next
    case False
    with Cons have "isl (scan_folders fs fl)" by simp
    then show ?thesis by (auto split: sum.splits)
  qed
qed

lemma scan_folders_valid:
  assumes "\<forall>f \<in> set fl. pathExists (getJsonPath f) fs \<longrightarrow>
             (\<exists>d s. map_of fs (getJsonPath f) = Some (File (Doc d)) \<and> map_of d ''note'' = Some (JStr s))"
  shows "\<exists>qs. scan_folders fs fl = Inr qs \<and>
           list_all2 (\<lambda>f p. \<exists>d s. map_of fs (getJsonPath f) = Some (File (Doc d))
                          \<and> map_of d ''note'' = Some (JStr s)
                          \<and> p = \<lparr>s_id = map_of d ''id'', s_name = map_of d ''name'',
                                  s_date = map_of d ''date'',
                                  s_photo = ''/images/'' @ to_string (map_of d ''id'') @ ''/''
                                              @ to_string (map_of d ''photo''),
                                  s_note = take 50 s @ (if 50 < length s then ''...'' else [])\<rparr>)
             (filter (\<lambda>f. pathExists (getJsonPath f) fs) fl) qs"
  using assms
proof (induction fl)
  case Nil
  then show ?case by simp
next
  case (Cons g fl)
  then obtain qs where qs: "scan_folders fs fl = Inr qs" and
    rel: "list_all2 (\<lambda>f p. \<exists>d s. map_of fs (getJsonPath f) = Some (File (Doc d))
                          \<and> map_of d ''note'' = Some (JStr s)
                          \<and> p = \<lparr>s_id = map_of d ''id'', s_name = map_of d ''name'',
                                  s_date = map_of d ''date'',
                                  s_photo = ''/images/'' @ to_string (map_of d ''id'') @ ''/''
                                              @ to_string (map_of d ''photo''),
                                  s_note = take 50 s @ (if 50 < length s then ''...'' else [])\<rparr>)
             (filter (\<lambda>f. pathExists (getJsonPath f) fs) fl) qs"
    by auto
  show ?case
  proof (cases "pathExists (getJsonPath g) fs")
    case False
    with qs rel show ?thesis by simp
  next
    case True
    with Cons.prems obtain d s where d: "map_of fs (getJsonPath g) = Some (File (Doc d))"
      and s: "map_of d ''note'' = Some (JStr s)" by auto
    from d have rd: "read_json (getJsonPath g) fs = Inr d" by (simp add: read_json_Inr)
    from s have sm: "summary_of d = Inr \<lparr>s_id = map_of d ''id'', s_name = map_of d ''name'',
                                  s_date = map_of d ''date'',
                                  s_photo = ''/images/'' @ to_string (map_of d ''id'') @ ''/''
                                              @ to_string (map_of d ''photo''),
                                  s_note = take 50 s @ (if 50 < length s then ''...'' else [])\<rparr>"
      by (simp add: summary_of_def photo_url_def truncate_note_def)
    from True rd sm qs rel d s show ?thesis by auto
  qed
qed

subsection \<open>Evaluating the examples\<close>

lemma paths_u1:
  "getJsonPath ''u1'' = [''srv'', ''backend'', ''data'', ''profiles'', ''u1'', ''profile.json'']"
  "getProfilePath ''u1'' = [''srv'', ''backend'', ''data'', ''profiles'', ''u1'']"
  "getPhotoPath ''u1'' ''photo.jpg'' = [''srv'', ''backend'', ''data'', ''profiles'', ''u1'', ''photo.jpg'']"
  "getPhotoPath ''u1'' ''photo.png'' = [''srv'', ''backend'', ''data'', ''profiles'', ''u1'', ''photo.png'']"
  "getPhotoPath ''u1'' ''photo'' = [''srv'', ''backend'', ''data'', ''profiles'', ''u1'', ''photo'']"
  by (simp_all add: getJsonPath_def getProfilePath_def getPhotoPath_def join_def norm_step_def
      profilesDir_def app_dir_def)

lemma photo_names:
  "photo_name ''Dog.PNG'' = ''photo.png''"
  "photo_name ''Cat.JPG'' = ''photo.jpg''"
  "photo_name ''README'' = ''photo''"
  by code_simp+

lemmas fs_defs = pathExists_def read_json_def readFile_def JSON_parse_def writeFile_def
  unlink_def rename_def is_dir_def is_file_def

lemmas update_defs = update_handler_def update_body_def update_fields_def replace_photo_def
  trim_field_def trim_def is_space_def contact_value_def assign_def respond_def
  profile_link_def Let_def

lemma text_update_run:
  "update_handler ''T9'' ''u1'' text_update store_u1 = (updated_u1, store_u1_text_updated)"
  by (simp add: update_defs paths_u1 fs_defs store_u1_def empty_store_def text_update_def
      ann_record_def updated_u1_def store_u1_text_updated_def)

lemma photo_update_run:
  "update_handler ''T9'' ''u1'' photo_update store_u1_staged = (updated_u1, store_u1_photo_updated)"
  by (simp add: update_defs paths_u1 fs_defs store_u1_def store_u1_staged_def empty_store_def
      photo_update_def ann_record_def photo_names staged_png_def updated_u1_def
      store_u1_photo_updated_def)

lemma ancestors_u1:
  "ancestors [''srv'', ''backend'', ''data'', ''profiles'', ''u1'']
     = [[], [''srv''], [''srv'', ''backend''], [''srv'', ''backend'', ''data''],
        [''srv'', ''backend'', ''data'', ''profiles''],
        [''srv'', ''backend'', ''data'', ''profiles'', ''u1'']]"
  by (simp add: ancestors_def upt_rec)

lemma staged_jpeg:
  "staged_path ''1700000000000-k3j9x2a1b'' jpeg_upload = staged_jpg"
  by (simp add: staged_path_def staged_name_def jpeg_upload_def extname_def basename_part_def
      join_def tempDir_def app_dir_def norm_step_def staged_jpg_def)

lemma upload_jpeg_run:
  "upload_single ''1700000000000-k3j9x2a1b'' (form n a c d t (Some jpeg_upload)) empty_store
     = (Inr (staged_form n a c d t), store_staged)"
  by (simp add: upload_single_def form_def staged_jpeg fileFilter_def startsWith_def fileSize_limit_def
      fs_defs fields_of_def empty_store_def staged_form_def store_staged_def staged_jpg_def)
     (simp add: jpeg_upload_def)

lemma create_handler_run:
  assumes "n \<noteq> []" "a \<noteq> []" "d \<noteq> []" "t \<noteq> []"
  shows "create_handler ''u1'' t1 t2 (staged_form (Some n) (Some a) c (Some d) (Some t)) store_staged
     = (created_u1,
        empty_store @
          [([''srv'', ''backend'', ''data'', ''profiles'', ''u1''], Dir),
           ([''srv'', ''backend'', ''data'', ''profiles'', ''u1'', ''photo.jpg''], File (Bytes ''JFIF'')),
           ([''srv'', ''backend'', ''data'', ''profiles'', ''u1'', ''profile.json''],
            File (Doc
              [(''id'', JStr ''u1''), (''name'', JStr (trim n)), (''address'', JStr (trim a)),
               (''contact'', contact_value c), (''photo'', JStr ''photo.jpg''),
               (''date'', JStr d), (''note'', JStr (trim t)),
               (''createdAt'', JStr t1), (''updatedAt'', JStr t2)]))])"
  using assms
  by (simp add: create_handler_def create_body_def falsy_def staged_form_def store_staged_def
      staged_jpg_def created_u1_def
      paths_u1 mkdir_recursive_def ancestors_u1 fs_defs empty_store_def photo_names
      trim_field_def object_def respond_def profile_link_def Let_def)

lemma create_run:
  assumes "n \<noteq> []" "a \<noteq> []" "d \<noteq> []" "t \<noteq> []"
  shows "post_profiles ''1700000000000-k3j9x2a1b'' ''u1'' t1 t2
           (form (Some n) (Some a) c (Some d) (Some t) (Some jpeg_upload)) empty_store
     = (created_u1,
        empty_store @
          [([''srv'', ''backend'', ''data'', ''profiles'', ''u1''], Dir),
           ([''srv'', ''backend'', ''data'', ''profiles'', ''u1'', ''photo.jpg''], File (Bytes ''JFIF'')),
           ([''srv'', ''backend'', ''data'', ''profiles'', ''u1'', ''profile.json''],
            File (Doc
              [(''id'', JStr ''u1''), (''name'', JStr (trim n)), (''address'', JStr (trim a)),
               (''contact'', contact_value c), (''photo'', JStr ''photo.jpg''),
               (''date'', JStr d), (''note'', JStr (trim t)),
               (''createdAt'', JStr t1), (''updatedAt'', JStr t2)]))])"
  using create_handler_run [OF assms]
  by (simp add: post_profiles_def upload_jpeg_run)

lemma trims:
  "trim ''   '' = []" "trim ''X'' = ''X''" "trim ''hello'' = ''hello''" "trim ''Ann'' = ''Ann''"
  by (simp_all add: trim_def is_space_def)

lemma create_ann_run:
  "create_handler ''u1'' ''T1'' ''T2''
     (staged_form (Some ''Ann'') (Some ''X'') None (Some ''2024-01-01'') (Some ''hello'')) store_staged
   = (created_u1, store_u1)"
  using create_handler_run [of "''Ann''" "''X''" "''2024-01-01''" "''hello''" "''T1''" "''T2''" None]
  by (simp add: trims contact_value_def store_u1_def ann_record_def)

lemma staged_readme:
  "staged_path ''1700000000002-m4n5b6v7c'' readme_upload
     = [''srv'', ''backend'', ''temp'', ''1700000000002-m4n5b6v7c'']"
  by (simp add: staged_path_def staged_name_def readme_upload_def extname_def basename_part_def
      join_def tempDir_def app_dir_def norm_step_def)

lemma upload_readme_run:
  "upload_single ''1700000000002-m4n5b6v7c'' (form n a c d t (Some readme_upload)) empty_store
     = (Inr \<lparr>f_name = n, f_address = a, f_contact = c, f_date = d, f_note = t,
             req_file = Some \<lparr>file_path = [''srv'', ''backend'', ''temp'', ''1700000000002-m4n5b6v7c''],
                               file_originalname = ''README''\<rparr>\<rparr>,
        empty_store @ [([''srv'', ''backend'', ''temp'', ''1700000000002-m4n5b6v7c''], File (Bytes ''PNG''))])"
  by (simp add: upload_single_def form_def staged_readme fileFilter_def startsWith_def fileSize_limit_def
      fs_defs fields_of_def empty_store_def)
     (simp add: readme_upload_def)

lemma lower_exts:
  "toLowerCase (extname ''Cat.JPG'') = ''.jpg''"
  "toLowerCase (extname ''Dog.PNG'') = ''.png''"
  by code_simp+

lemma paths_more:
  "getJsonPath ''u2'' = [''srv'', ''backend'', ''data'', ''profiles'', ''u2'', ''profile.json'']"
  "getJsonPath ''u3'' = [''srv'', ''backend'', ''data'', ''profiles'', ''u3'', ''profile.json'']"
  "getJsonPath ''lost+found'' = [''srv'', ''backend'', ''data'', ''profiles'', ''lost+found'', ''profile.json'']"
  "profilesDir = [''srv'', ''backend'', ''data'', ''profiles'']"
  by (simp_all add: getJsonPath_def join_def norm_step_def profilesDir_def app_dir_def)

lemma folders_two: "store_folders store_two = Inr [''u1'', ''u2'', ''lost+found'']"
  by (simp add: store_folders_def pathExists_def readdir_def paths_more store_two_def store_u1_def
      empty_store_def)

lemma folders_cut_short: "store_folders store_cut_short = Inr [''u1'', ''u2'']"
  by (simp add: store_folders_def pathExists_def readdir_def paths_more store_cut_short_def store_u1_def
      empty_store_def)

lemma folders_damaged: "store_folders store_damaged = Inr [''u2'']"
  by (simp add: store_folders_def pathExists_def readdir_def paths_more store_damaged_def
      empty_store_def)

lemma folders_no_photo: "store_folders store_u1_no_photo = Inr [''u1'']"
  by (simp add: store_folders_def pathExists_def readdir_def paths_more store_u1_no_photo_def
      empty_store_def)

lemma folders_u1: "store_folders store_u1 = Inr [''u1'']"
  by (simp add: store_folders_def pathExists_def readdir_def paths_more store_u1_def
      empty_store_def)

lemma summary_ann: "summary_of ann_record = Inr ann_summary"
  by (simp add: summary_of_def ann_record_def ann_summary_def photo_url_def to_string_def truncate_note_def)

lemma summary_bob: "summary_of bob_record = Inr bob_summary"
  by (simp add: summary_of_def bob_record_def bob_summary_def photo_url_def to_string_def truncate_note_def
     bob_note_def)

lemma scan_two: "scan_folders store_two [''u1'', ''u2'', ''lost+found''] = Inr [ann_summary, bob_summary]"
  by (simp add: paths_u1 paths_more fs_defs store_two_def store_u1_def empty_store_def summary_ann summary_bob)

lemma sort_two: "sort_by (by_date example_dates) [ann_summary, bob_summary] = [bob_summary, ann_summary]"
  by (simp add: sort_by_def by_date_def new_Date_def example_dates_def ann_summary_def bob_summary_def positive_def)

lemma list_two:
  "list_handler example_dates store_two = \<lparr>status = 200, body = Listing [bob_summary, ann_summary]\<rparr>"
  by (simp only: list_handler_def list_from_def folders_two sum.case scan_two sort_two)
     (simp add: respond_def)

lemma scan_cut_short: "scan_folders store_cut_short [''u1'', ''u2''] = Inl SyntaxError"
  by (simp add: paths_u1 paths_more fs_defs store_cut_short_def store_u1_def empty_store_def summary_ann)

lemma list_cut_short:
  "list_handler D store_cut_short = \<lparr>status = 500, body = Failure ''Failed to fetch profiles''\<rparr>"
  by (simp only: list_handler_def list_from_def folders_cut_short sum.case scan_cut_short)
     (simp add: respond_def)

lemma scan_damaged: "scan_folders store_damaged [''u2''] = Inl SyntaxError"
  by (simp add: paths_more fs_defs store_damaged_def empty_store_def)

lemma list_damaged:
  "list_handler D store_damaged = \<lparr>status = 500, body = Failure ''Failed to fetch profiles''\<rparr>"
  by (simp only: list_handler_def list_from_def folders_damaged sum.case scan_damaged)
     (simp add: respond_def)

lemma scan_no_photo: "scan_folders store_u1_no_photo [''u1''] = Inr [ann_summary]"
  by (simp add: paths_u1 fs_defs store_u1_no_photo_def empty_store_def summary_ann)

lemma list_no_photo:
  "list_handler D store_u1_no_photo = \<lparr>status = 200, body = Listing [ann_summary]\<rparr>"
  by (simp only: list_handler_def list_from_def folders_no_photo sum.case scan_no_photo)
     (simp add: respond_def sort_by_def)

lemma get_no_photo:
  "get_handler ''u1'' store_u1_no_photo
     = \<lparr>status = 200,
        body = Profile (ann_record @ [(''photoUrl'', JStr ''/images/u1/photo.jpg'')])\<rparr>"
  by (simp add: get_handler_def paths_u1 fs_defs store_u1_no_photo_def empty_store_def respond_def
      assign_def photo_url_def to_string_def ann_record_def)

lemma dir_no_photo:
  "readdir (getProfilePath ''u1'') store_u1_no_photo = Inr [''profile.json'']"
  by (simp add: readdir_def paths_u1 store_u1_no_photo_def empty_store_def)

lemma order_lost_at_unparseable_date:
  "sort_by (by_date example_dates)
     [ann_summary, ann_summary\<lparr>s_date := Some (JStr ''soon'')\<rparr>, bob_summary]
   = [ann_summary, ann_summary\<lparr>s_date := Some (JStr ''soon'')\<rparr>, bob_summary]
   \<and> \<not> not_older example_dates ann_summary bob_summary"
  by (simp add: sort_by_def by_date_def new_Date_def example_dates_def ann_summary_def bob_summary_def
      positive_def not_older_def)

lemma staged_png_path:
  "staged_path ''1700000000001-q7w8e9r0t'' png_upload = staged_png"
  by (simp add: staged_path_def staged_name_def png_upload_def extname_def basename_part_def
      join_def tempDir_def app_dir_def norm_step_def staged_png_def)

lemma upload_png_run:
  "upload_single ''1700000000001-q7w8e9r0t''
     (form (Some ''Ann B'') (Some ''Y'') (Some ''555'') (Some ''2024-02-02'') (Some ''changed'')
        (Some png_upload))
     store_u1_no_photo
   = (Inr photo_update, store_u1_no_photo @ [(staged_png, File (Bytes ''PNG''))])"
  by (simp add: upload_single_def form_def staged_png_path fileFilter_def startsWith_def
      fileSize_limit_def fs_defs fields_of_def photo_update_def store_u1_no_photo_def
      empty_store_def staged_png_def)
     (simp add: png_upload_def)

subsection \<open>The effect of an update\<close>

lemma update_handler_effect:
  assumes "update_handler now pid sreq fs = (resp, fs')" and "status resp = 200"
  shows "\<exists>old new.
           map_of fs (getJsonPath pid) = Some (File (Doc old))
         \<and> map_of fs' (getJsonPath pid) = Some (File (Doc new))
         \<and> map_of new ''updatedAt'' = Some (JStr now)
         \<and> (case req_file sreq of
               None \<Rightarrow> map_of new ''photo'' = map_of old ''photo''
             | Some f \<Rightarrow>
                 map_of new ''photo''
                   = Some (JStr (''photo'' @ toLowerCase (extname (file_originalname f))))
                 \<and> (\<exists>c. map_of fs (file_path f) = Some (File c)
                        \<and> map_of fs' (getPhotoPath pid (''photo'' @ toLowerCase (extname (file_originalname f))))
                            = Some (File c))
                 \<and> (\<exists>prev. map_of old ''photo'' = Some (JStr prev)
                        \<and> (getPhotoPath pid prev
                              = getPhotoPath pid (''photo'' @ toLowerCase (extname (file_originalname f)))
                            \<or> getPhotoPath pid prev = getJsonPath pid
                            \<or> map_of fs' (getPhotoPath pid prev) = None)))"
proof -
  from update_handler_200 [OF assms] obtain old d1 d2 fs2 where
    old: "map_of fs (getJsonPath pid) = Some (File (Doc old))" and
    d1: "update_fields now sreq old = Inr d1" and
    d2: "case req_file sreq of None \<Rightarrow> d2 = d1 \<and> fs2 = fs
         | Some f \<Rightarrow> replace_photo pid f d1 fs = Inr (d2, fs2)" and
    wr: "writeFile (getJsonPath pid) (Doc d2) fs2 = Inr fs'"
    by blast
  have fs': "map_of fs' = (map_of fs2)(getJsonPath pid \<mapsto> File (Doc d2))"
    by (rule map_of_writeFile [OF wr])
  from update_fields_Inr [OF d1] have
    u1: "map_of d1 ''updatedAt'' = Some (JStr now)" and
    p1: "map_of d1 ''photo'' = map_of old ''photo''"
    by auto
  show ?thesis
  proof (cases "req_file sreq")
    case None
    with d2 have "d2 = d1" by simp
    with None u1 p1 old fs' show ?thesis by simp
  next
    case (Some f)
    let ?name = "photo_name (file_originalname f)"
    let ?new = "getPhotoPath pid ?name"
    from Some d2 have "replace_photo pid f d1 fs = Inr (d2, fs2)" by simp
    from replace_photo_Inr [OF this] obtain prev fsa where
      prev: "map_of d1 ''photo'' = Some (JStr prev)" and
      un: "if pathExists (getPhotoPath pid prev) fs
           then unlink (getPhotoPath pid prev) fs = Inr fsa else fsa = fs" and
      rn: "rename (file_path f) ?new fsa = Inr fs2" and
      d2eq: "d2 = assign ''photo'' (Some (JStr ?name)) d1"
      by blast
    let ?prev = "getPhotoPath pid prev"
    have fsa: "map_of fsa = (map_of fs)(?prev := None)"
    proof (cases "pathExists ?prev fs")
      case True
      with un show ?thesis by (simp add: map_of_unlink)
    next
      case False
      with un show ?thesis by (auto simp: pathExists_def)
    qed
    from map_of_rename [OF rn] obtain c where
      src: "map_of fsa (file_path f) = Some (File c)" and
      fs2: "map_of fs2 = (if file_path f = ?new then map_of fsa
                          else ((map_of fsa)(file_path f := None))(?new \<mapsto> File c))"
      by blast
    from src fsa have c0: "map_of fs (file_path f) = Some (File c)"
      by (auto split: if_splits)
    have n2: "map_of fs2 ?new = Some (File c)"
      using fs2 src by auto
    have c1: "map_of fs' ?new = Some (File c)"
      using fs' n2 new_photo_path_not_json [of pid "file_originalname f"] by simp
    have g: "?prev = ?new \<or> ?prev = getJsonPath pid \<or> map_of fs' ?prev = None"
      using fs' fs2 fsa by auto
    have "map_of d2 ''photo'' = Some (JStr ?name)" "map_of d2 ''updatedAt'' = Some (JStr now)"
      using d2eq u1 by simp_all
    with Some old fs' c0 c1 g prev p1 show ?thesis
      by (simp add: photo_name_def)
  qed
qed

lemma update_fields_present:
  assumes "f_name sreq = Some n" "f_address sreq = Some a" "f_note sreq = Some t"
  shows "update_fields now sreq d =
     Inr (assign ''updatedAt'' (Some (JStr now))
            (assign ''note'' (Some (JStr (trim t)))
            (assign ''date'' (map_option JStr (f_date sreq))
            (assign ''contact'' (Some (contact_value (f_contact sreq)))
            (assign ''address'' (Some (JStr (trim a)))
            (assign ''name'' (Some (JStr (trim n))) d))))))"
  using assms by (simp add: update_fields_def trim_field_def)

lemma update_succeeds_without_previous_photo:
  assumes old: "map_of fs (getJsonPath pid) = Some (File (Doc old))"
      and flds: "f_name sreq \<noteq> None" "f_address sreq \<noteq> None" "f_note sreq \<noteq> None"
      and f: "req_file sreq = Some f"
      and prev: "map_of old ''photo'' = Some (JStr prev)"
      and absent: "map_of fs (getPhotoPath pid prev) = None"
      and staged: "map_of fs (file_path f) = Some (File c)"
      and dir: "map_of fs (getProfilePath pid) = Some Dir"
      and free: "map_of fs (getPhotoPath pid (photo_name (file_originalname f))) \<noteq> Some Dir"
  shows "status (fst (update_handler now pid sreq fs)) = 200"
proof -
  let ?json = "getJsonPath pid"
  let ?new = "getPhotoPath pid (photo_name (file_originalname f))"
  from flds obtain n a t where na: "f_name sreq = Some n" "f_address sreq = Some a" "f_note sreq = Some t"
    by auto
  define d1 where "d1 = assign ''updatedAt'' (Some (JStr now))
            (assign ''note'' (Some (JStr (trim t)))
            (assign ''date'' (map_option JStr (f_date sreq))
            (assign ''contact'' (Some (contact_value (f_contact sreq)))
            (assign ''address'' (Some (JStr (trim a)))
            (assign ''name'' (Some (JStr (trim n))) old)))))"
  have uf: "update_fields now sreq old = Inr d1"
    unfolding d1_def by (rule update_fields_present [OF na])
  have p1: "map_of d1 ''photo'' = Some (JStr prev)"
    using prev by (simp add: d1_def)
  have ex: "pathExists ?json fs" using old by (simp add: pathExists_def)
  have rd: "read_json ?json fs = Inr old" using old by (simp add: read_json_Inr)
  have nex: "\<not> pathExists (getPhotoPath pid prev) fs" using absent by (simp add: pathExists_def)
  have newp: "?new = getProfilePath pid @ [photo_name (file_originalname f)]"
    by (rule getPhotoPath_eq [OF photo_name_plain])
  have free': "\<not> is_dir (map_of fs ?new)"
    using free by (auto simp: is_dir_def split: option.splits node.splits)
  define fs2 where "fs2 = (if file_path f = ?new then fs
                           else AList.update ?new (File c) (AList.delete (file_path f) fs))"
  have rn: "rename (file_path f) ?new fs = Inr fs2"
    using staged dir free' by (simp add: rename_def newp is_dir_def fs2_def)
  have rp: "replace_photo pid f d1 fs = Inr (assign ''photo'' (Some (JStr (photo_name (file_originalname f)))) d1, fs2)"
    using p1 nex rn by (simp add: replace_photo_def Let_def)
  have m2: "map_of fs2 = (if file_path f = ?new then map_of fs
                          else ((map_of fs)(file_path f := None))(?new \<mapsto> File c))"
    by (simp add: fs2_def update_conv' delete_conv')
  have d2: "map_of fs2 (getProfilePath pid) = Some Dir"
    using dir staged by (auto simp: m2 newp)
  have j2: "\<not> is_dir (map_of fs2 ?json)"
    using old new_photo_path_not_json [of pid "file_originalname f"]
    by (auto simp: m2 is_dir_def)
  have wr: "\<exists>fs3. writeFile ?json (Doc (assign ''photo'' (Some (JStr (photo_name (file_originalname f)))) d1)) fs2 = Inr fs3"
    using d2 j2 by (simp add: writeFile_def getJsonPath_eq is_dir_def)
  then obtain fs3 where wr': "writeFile ?json (Doc (assign ''photo'' (Some (JStr (photo_name (file_originalname f)))) d1)) fs2 = Inr fs3"
    by blast
  show ?thesis
    by (simp add: update_handler_def update_body_def ex rd uf f rp wr')
qed

subsection \<open>What a listing contains\<close>

lemma scan_folders_complete:
  "scan_folders fs fl = Inr qs \<Longrightarrow> f \<in> set fl \<Longrightarrow> pathExists (getJsonPath f) fs \<Longrightarrow>
     \<exists>d p. map_of fs (getJsonPath f) = Some (File (Doc d)) \<and> summary_of d = Inr p \<and> p \<in> set qs"
proof (induction fl arbitrary: qs)
  case Nil
  then show ?case by simp
next
  case (Cons g fl)
  show ?case
  proof (cases "pathExists (getJsonPath g) fs")
    case False
    with Cons.prems have "scan_folders fs fl = Inr qs" "f \<in> set fl" by auto
    from Cons.IH [OF this Cons.prems(3)] show ?thesis .
  next
    case True
    with Cons.prems(1) obtain d p ps where
      d: "read_json (getJsonPath g) fs = Inr d" and p: "summary_of d = Inr p" and
      ps: "scan_folders fs fl = Inr ps" and qs: "qs = p # ps"
      by (auto split: sum.splits)
    show ?thesis
    proof (cases "f = g")
      case True
      with d p qs show ?thesis by (auto simp: read_json_Inr)
    next
      case False
      with Cons.prems(2) have "f \<in> set fl" by simp
      from Cons.IH [OF ps this Cons.prems(3)] qs show ?thesis by auto
    qed
  qed
qed

lemma scan_folders_sound:
  "scan_folders fs fl = Inr qs \<Longrightarrow> p \<in> set qs \<Longrightarrow>
     \<exists>f d. f \<in> set fl \<and> map_of fs (getJsonPath f) = Some (File (Doc d)) \<and> summary_of d = Inr p"
proof (induction fl arbitrary: qs)
  case Nil
  then show ?case by simp
next
  case (Cons g fl)
  show ?case
  proof (cases "pathExists (getJsonPath g) fs")
    case False
    with Cons.prems have "scan_folders fs fl = Inr qs" by auto
    from Cons.IH [OF this Cons.prems(2)] show ?thesis by auto
  next
    case True
    with Cons.prems(1) obtain d q ps where
      d: "read_json (getJsonPath g) fs = Inr d" and q: "summary_of d = Inr q" and
      ps: "scan_folders fs fl = Inr ps" and qs: "qs = q # ps"
      by (auto split: sum.splits)
    show ?thesis
    proof (cases "p = q")
      case True
      with d q show ?thesis by (auto simp: read_json_Inr)
    next
      case False
      with Cons.prems(2) qs have "p \<in> set ps" by simp
      from Cons.IH [OF ps this] show ?thesis by auto
    qed
  qed
qed

lemma list_handler_Listing:
  assumes "list_handler D fs = \<lparr>status = 200, body = Listing ps\<rparr>"
  shows "\<exists>folders qs. store_folders fs = Inr folders \<and> scan_folders fs folders = Inr qs
           \<and> set ps = set qs"
proof -
  from assms obtain folders where fl: "store_folders fs = Inr folders"
    by (cases "store_folders fs") (auto simp: list_handler_def list_from_def respond_def)
  with assms obtain qs where qs: "scan_folders fs folders = Inr qs"
    by (cases "scan_folders fs folders") (auto simp: list_handler_def list_from_def respond_def)
  with assms fl have "ps = sort_by (by_date D) qs"
    by (simp add: list_handler_def list_from_def respond_def)
  then have "set ps = set qs" by (simp add: set_sort_by)
  with fl qs show ?thesis by blast
qed

lemma summary_of_photo:
  "summary_of d = Inr p \<Longrightarrow>
     s_photo p = ''/images/'' @ to_string (map_of d ''id'') @ ''/'' @ to_string (map_of d ''photo'')"
  by (auto simp: summary_of_def photo_url_def split: option.splits json.splits)

subsection \<open>The record a successful Create stores\<close>

lemma post_profiles_stored:
  assumes "status (fst (post_profiles stamp uuid t1 t2 req fs)) = 200"
  shows "\<exists>n a dt t r. f_name req = Some n \<and> f_address req = Some a \<and> f_date req = Some dt
           \<and> f_note req = Some t
           \<and> map_of (snd (post_profiles stamp uuid t1 t2 req fs)) (getJsonPath uuid) = Some (File (Doc r))
           \<and> map_of r ''name'' = Some (JStr (trim n))
           \<and> map_of r ''address'' = Some (JStr (trim a))
           \<and> map_of r ''date'' = Some (JStr dt)
           \<and> map_of r ''note'' = Some (JStr (trim t))"
proof -
  obtain resp fs' where pp: "post_profiles stamp uuid t1 t2 req fs = (resp, fs')"
    by (cases "post_profiles stamp uuid t1 t2 req fs")
  with assms have st: "status resp = 200" by simp
  from post_profiles_200 [OF pp st] obtain sreq fs1 where
    up: "upload_single stamp req fs = (Inr sreq, fs1)" and
    ch: "create_handler uuid t1 t2 sreq fs1 = (resp, fs')"
    by blast
  from create_handler_200 [OF ch st] obtain f n a d t fs2 where
    fl: "req_file sreq = Some f" and
    flds: "f_name sreq = Some n" "f_address sreq = Some a" "f_date sreq = Some d" "f_note sreq = Some t" and
    wr: "writeFile (getJsonPath uuid)
                (Doc [(''id'', JStr uuid), (''name'', JStr (trim n)), (''address'', JStr (trim a)),
                      (''contact'', contact_value (f_contact sreq)),
                      (''photo'', JStr (photo_name (file_originalname f))),
                      (''date'', JStr d), (''note'', JStr (trim t)),
                      (''createdAt'', JStr t1), (''updatedAt'', JStr t2)]) fs2 = Inr fs'"
    by blast
  from upload_single_accepts [OF up] flds have
    rq: "f_name req = Some n" "f_address req = Some a" "f_date req = Some d" "f_note req = Some t"
    by simp_all
  define r where "r = [(''id'', JStr uuid), (''name'', JStr (trim n)), (''address'', JStr (trim a)),
                      (''contact'', contact_value (f_contact sreq)),
                      (''photo'', JStr (photo_name (file_originalname f))),
                      (''date'', JStr d), (''note'', JStr (trim t)),
                      (''createdAt'', JStr t1), (''updatedAt'', JStr t2)]"
  from map_of_writeFile [OF wr] have
    m: "map_of (snd (post_profiles stamp uuid t1 t2 req fs)) (getJsonPath uuid) = Some (File (Doc r))"
    by (simp add: pp r_def)
  have v: "map_of r ''name'' = Some (JStr (trim n))" "map_of r ''address'' = Some (JStr (trim a))"
    "map_of r ''date'' = Some (JStr d)" "map_of r ''note'' = Some (JStr (trim t))"
    by (simp_all add: r_def)
  from rq m v show ?thesis by blast
qed

lemma trim_blank: "\<forall>c \<in> set s. is_space c \<Longrightarrow> trim s = []"
proof -
  assume "\<forall>c \<in> set s. is_space c"
  then have h: "dropWhile is_space s = []" by simp
  show ?thesis unfolding trim_def h by simp
qed

section \<open>The upload filter and the error handler\<close>

text \<open>
  C6 (what the code does): a Create request whose uploaded file is declared with a
  content type that does not begin with \<open>image/\<close> is rejected and nothing is written,
  so no profile is created; but the error of the filter reaches the error handler as a
  plain error and the response is 500 \<open>Internal server error\<close>, not a 4xx response.
\<close>

theorem non_image_upload_answers_500:
  assumes "photo req = Some u" and "\<not> startsWith (mimetype u) ''image/''"
  shows "post_profiles stamp uuid t1 t2 req fs
           = (\<lparr>status = 500, body = Failure ''Internal server error''\<rparr>, fs)"
  using assms
  by (simp add: post_profiles_def upload_single_def fileFilter_def
      error_middleware_def respond_def)

theorem non_image_upload_answers_500_witness:
  "photo (form (Some ''A'') (Some ''X'') None (Some ''2024-01-01'') (Some ''hello'') (Some text_upload))
     = Some text_upload
   \<and> \<not> startsWith (mimetype text_upload) ''image/''
   \<and> post_profiles ''1700000000000-k3j9x2a1b'' ''u1'' ''T'' ''T''
        (form (Some ''A'') (Some ''X'') None (Some ''2024-01-01'') (Some ''hello'') (Some text_upload))
        empty_store
       = (\<lparr>status = 500, body = Failure ''Internal server error''\<rparr>, empty_store)"
proof -
  have h1: "photo (form (Some ''A'') (Some ''X'') None (Some ''2024-01-01'') (Some ''hello'') (Some text_upload))
              = Some text_upload"
    by (simp add: form_def)
  have h2: "\<not> startsWith (mimetype text_upload) ''image/''"
    by (simp add: text_upload_def startsWith_def)
  from non_image_upload_answers_500 [OF h1 h2] h1 h2 show ?thesis by simp
qed

section \<open>Update\<close>

text \<open>
  C5: every successful Update of an existing profile refreshes \<open>updatedAt\<close> to the
  reading of the clock. Without a replacement image the recorded photo name is
  unchanged. With a replacement image the recorded photo name becomes \<open>photo\<close> followed
  by the lowercased extension of the uploaded file's name, the uploaded image (staged
  at \<open>file_path f\<close>) is the file of that name in the profile's directory, and the file
  of the previous photo name is gone, unless that name is the new one and the file was
  replaced (or it names the metadata file, which is rewritten). The absence of the
  previous photo file is tolerated: an Update with a replacement image on a readable
  record whose recorded photo file does not exist succeeds all the same, given the
  three trimmed fields, the staged upload, the profile's directory, and no directory
  in the place of the new photo.
\<close>

theorem update_photo_and_timestamp:
  "(update_handler now pid sreq fs = (resp, fs') \<and> status resp = 200 \<longrightarrow>
      (\<exists>old new.
           map_of fs (getJsonPath pid) = Some (File (Doc old))
         \<and> map_of fs' (getJsonPath pid) = Some (File (Doc new))
         \<and> map_of new ''updatedAt'' = Some (JStr now)
         \<and> (case req_file sreq of
               None \<Rightarrow> map_of new ''photo'' = map_of old ''photo''
             | Some f \<Rightarrow>
                 map_of new ''photo''
                   = Some (JStr (''photo'' @ toLowerCase (extname (file_originalname f))))
                 \<and> (\<exists>c. map_of fs (file_path f) = Some (File c)
                        \<and> map_of fs' (getPhotoPath pid (''photo'' @ toLowerCase (extname (file_originalname f))))
                            = Some (File c))
                 \<and> (\<exists>prev. map_of old ''photo'' = Some (JStr prev)
                        \<and> (getPhotoPath pid prev
                              = getPhotoPath pid (''photo'' @ toLowerCase (extname (file_originalname f)))
                            \<or> getPhotoPath pid prev = getJsonPath pid
                            \<or> map_of fs' (getPhotoPath pid prev) = None)))))
   \<and> (map_of fs (getJsonPath pid) = Some (File (Doc rec0))
        \<and> f_name sreq \<noteq> None \<and> f_address sreq \<noteq> None \<and> f_note sreq \<noteq> None
        \<and> req_file sreq = Some f
        \<and> map_of rec0 ''photo'' = Some (JStr prev)
        \<and> map_of fs (getPhotoPath pid prev) = None
        \<and> map_of fs (file_path f) = Some (File c)
        \<and> map_of fs (getProfilePath pid) = Some Dir
        \<and> map_of fs (getPhotoPath pid (''photo'' @ toLowerCase (extname (file_originalname f))))
            \<noteq> Some Dir
      \<longrightarrow> status (fst (update_handler now pid sreq fs)) = 200)"
proof -
  have a: "update_handler now pid sreq fs = (resp, fs') \<and> status resp = 200 \<longrightarrow>
      (\<exists>old new.
           map_of fs (getJsonPath pid) = Some (File (Doc old))
         \<and> map_of fs' (getJsonPath pid) = Some (File (Doc new))
         \<and> map_of new ''updatedAt'' = Some (JStr now)
         \<and> (case req_file sreq of
               None \<Rightarrow> map_of new ''photo'' = map_of old ''photo''
             | Some f \<Rightarrow>
                 map_of new ''photo''
                   = Some (JStr (''photo'' @ toLowerCase (extname (file_originalname f))))
                 \<and> (\<exists>c. map_of fs (file_path f) = Some (File c)
                        \<and> map_of fs' (getPhotoPath pid (''photo'' @ toLowerCase (extname (file_originalname f))))
                            = Some (File c))
                 \<and> (\<exists>prev. map_of old ''photo'' = Some (JStr prev)
                        \<and> (getPhotoPath pid prev
                              = getPhotoPath pid (''photo'' @ toLowerCase (extname (file_originalname f)))
                            \<or> getPhotoPath pid prev = getJsonPath pid
                            \<or> map_of fs' (getPhotoPath pid prev) = None))))"
  proof
    assume "update_handler now pid sreq fs = (resp, fs') \<and> status resp = 200"
    then have h1: "update_handler now pid sreq fs = (resp, fs')" and h2: "status resp = 200"
      by simp_all
    from update_handler_effect [OF h1 h2]
    show "\<exists>old new.
           map_of fs (getJsonPath pid) = Some (File (Doc old))
         \<and> map_of fs' (getJsonPath pid) = Some (File (Doc new))
         \<and> map_of new ''updatedAt'' = Some (JStr now)
         \<and> (case req_file sreq of
               None \<Rightarrow> map_of new ''photo'' = map_of old ''photo''
             | Some f \<Rightarrow>
                 map_of new ''photo''
                   = Some (JStr (''photo'' @ toLowerCase (extname (file_originalname f))))
                 \<and> (\<exists>c. map_of fs (file_path f) = Some (File c)
                        \<and> map_of fs' (getPhotoPath pid (''photo'' @ toLowerCase (extname (file_originalname f))))
                            = Some (File c))
                 \<and> (\<exists>prev. map_of old ''photo'' = Some (JStr prev)
                        \<and> (getPhotoPath pid prev
                              = getPhotoPath pid (''photo'' @ toLowerCase (extname (file_originalname f)))
                            \<or> getPhotoPath pid prev = getJsonPath pid
                            \<or> map_of fs' (getPhotoPath pid prev) = None)))" .
  qed
  have b: "map_of fs (getJsonPath pid) = Some (File (Doc rec0))
        \<and> f_name sreq \<noteq> None \<and> f_address sreq \<noteq> None \<and> f_note sreq \<noteq> None
        \<and> req_file sreq = Some f
        \<and> map_of rec0 ''photo'' = Some (JStr prev)
        \<and> map_of fs (getPhotoPath pid prev) = None
        \<and> map_of fs (file_path f) = Some (File c)
        \<and> map_of fs (getProfilePath pid) = Some Dir
        \<and> map_of fs (getPhotoPath pid (''photo'' @ toLowerCase (extname (file_originalname f))))
            \<noteq> Some Dir
      \<longrightarrow> status (fst (update_handler now pid sreq fs)) = 200"
    using update_succeeds_without_previous_photo [of fs pid rec0 sreq f prev c now]
    by (simp add: photo_name_def)
  from a b show ?thesis by (rule conjI)
qed

theorem update_photo_and_timestamp_witness:
  "update_handler ''T9'' ''u1'' photo_update store_u1_staged = (updated_u1, store_u1_photo_updated)
   \<and> status updated_u1 = 200
   \<and> (\<exists>old new.
           map_of store_u1_staged (getJsonPath ''u1'') = Some (File (Doc old))
         \<and> map_of store_u1_photo_updated (getJsonPath ''u1'') = Some (File (Doc new))
         \<and> map_of new ''updatedAt'' = Some (JStr ''T9'')
         \<and> map_of new ''photo'' = Some (JStr ''photo.png'')
         \<and> map_of store_u1_photo_updated (getPhotoPath ''u1'' ''photo.png'') = Some (File (Bytes ''PNG''))
         \<and> map_of old ''photo'' = Some (JStr ''photo.jpg'')
         \<and> map_of store_u1_photo_updated (getPhotoPath ''u1'' ''photo.jpg'') = None)
   \<and> map_of store_u1_no_photo_staged (getJsonPath ''u1'') = Some (File (Doc ann_record))
   \<and> map_of ann_record ''photo'' = Some (JStr ''photo.jpg'')
   \<and> map_of store_u1_no_photo_staged (getPhotoPath ''u1'' ''photo.jpg'') = None
   \<and> map_of store_u1_no_photo_staged staged_png = Some (File (Bytes ''PNG''))
   \<and> status (fst (update_handler ''T9'' ''u1'' photo_update store_u1_no_photo_staged)) = 200"
proof -
  note t = update_photo_and_timestamp [of "''T9''" "''u1''" photo_update store_u1_staged
      updated_u1 store_u1_photo_updated ann_record
      "\<lparr>file_path = staged_png, file_originalname = ''Dog.PNG''\<rparr>" "''photo.jpg''" "Bytes ''PNG''"]
  have st: "status updated_u1 = 200" by (simp add: updated_u1_def)
  from t photo_update_run st
  obtain old new where
    a: "map_of store_u1_staged (getJsonPath ''u1'') = Some (File (Doc old))" and
    b: "map_of store_u1_photo_updated (getJsonPath ''u1'') = Some (File (Doc new))" and
    c: "map_of new ''updatedAt'' = Some (JStr ''T9'')" and
    d: "case req_file photo_update of
          None \<Rightarrow> map_of new ''photo'' = map_of old ''photo''
        | Some f \<Rightarrow>
            map_of new ''photo''
              = Some (JStr (''photo'' @ toLowerCase (extname (file_originalname f))))
            \<and> (\<exists>c. map_of store_u1_staged (file_path f) = Some (File c)
                   \<and> map_of store_u1_photo_updated
                        (getPhotoPath ''u1'' (''photo'' @ toLowerCase (extname (file_originalname f))))
                       = Some (File c))
            \<and> (\<exists>prev. map_of old ''photo'' = Some (JStr prev)
                   \<and> (getPhotoPath ''u1'' prev
                         = getPhotoPath ''u1'' (''photo'' @ toLowerCase (extname (file_originalname f)))
                       \<or> getPhotoPath ''u1'' prev = getJsonPath ''u1''
                       \<or> map_of store_u1_photo_updated (getPhotoPath ''u1'' prev) = None))"
    by blast
  have old: "old = ann_record"
    using a by (simp add: store_u1_staged_def store_u1_def empty_store_def paths_u1)
  have nm: "''photo'' @ toLowerCase (extname ''Dog.PNG'') = ''photo.png''"
    using photo_names(1) by (simp add: photo_name_def)
  have e: "map_of new ''photo'' = Some (JStr ''photo.png'')"
    using d nm by (simp add: photo_update_def)
  have f: "map_of store_u1_photo_updated (getPhotoPath ''u1'' ''photo.png'') = Some (File (Bytes ''PNG''))"
    by (simp add: store_u1_photo_updated_def empty_store_def paths_u1)
  have g: "map_of old ''photo'' = Some (JStr ''photo.jpg'')"
    using old by (simp add: ann_record_def)
  have h: "map_of store_u1_photo_updated (getPhotoPath ''u1'' ''photo.jpg'') = None"
    by (simp add: store_u1_photo_updated_def empty_store_def paths_u1)
  note t2 = update_photo_and_timestamp [of "''T9''" "''u1''" photo_update store_u1_no_photo_staged
      updated_u1 store_u1_photo_updated ann_record
      "\<lparr>file_path = staged_png, file_originalname = ''Dog.PNG''\<rparr>" "''photo.jpg''" "Bytes ''PNG''"]
  have q1: "map_of store_u1_no_photo_staged (getJsonPath ''u1'') = Some (File (Doc ann_record))"
    by (simp add: store_u1_no_photo_staged_def store_u1_no_photo_def empty_store_def paths_u1
        staged_png_def)
  have q2: "f_name photo_update \<noteq> None" "f_address photo_update \<noteq> None" "f_note photo_update \<noteq> None"
    "req_file photo_update = Some \<lparr>file_path = staged_png, file_originalname = ''Dog.PNG''\<rparr>"
    by (simp_all add: photo_update_def)
  have q3: "map_of ann_record ''photo'' = Some (JStr ''photo.jpg'')"
    by (simp add: ann_record_def)
  have q4: "map_of store_u1_no_photo_staged (getPhotoPath ''u1'' ''photo.jpg'') = None"
    by (simp add: store_u1_no_photo_staged_def store_u1_no_photo_def empty_store_def paths_u1
        staged_png_def)
  have q5: "map_of store_u1_no_photo_staged staged_png = Some (File (Bytes ''PNG''))"
    by (simp add: store_u1_no_photo_staged_def store_u1_no_photo_def empty_store_def staged_png_def)
  have q6: "map_of store_u1_no_photo_staged (getProfilePath ''u1'') = Some Dir"
    by (simp add: store_u1_no_photo_staged_def store_u1_no_photo_def empty_store_def paths_u1
        staged_png_def)
  have q7: "map_of store_u1_no_photo_staged
              (getPhotoPath ''u1'' (''photo'' @ toLowerCase (extname ''Dog.PNG''))) \<noteq> Some Dir"
    unfolding nm
    by (simp add: store_u1_no_photo_staged_def store_u1_no_photo_def empty_store_def paths_u1
        staged_png_def)
  from t2 q1 q2 q3 q4 q5 q6 q7
  have r: "status (fst (update_handler ''T9'' ''u1'' photo_update store_u1_no_photo_staged)) = 200"
    by simp
  from photo_update_run st a b c e f g h q1 q3 q4 q5 r show ?thesis by blast
qed

text \<open>
  The previous photo file need not exist. The whole request, run on the store in which
  the photo of \<open>u1\<close> is missing, succeeds and ends in the same store as above.
\<close>

lemma update_tolerates_missing_photo:
  "map_of store_u1_no_photo (getPhotoPath ''u1'' ''photo.jpg'') = None
   \<and> put_profile ''1700000000001-q7w8e9r0t'' ''T9'' ''u1''
        (form (Some ''Ann B'') (Some ''Y'') (Some ''555'') (Some ''2024-02-02'') (Some ''changed'')
           (Some png_upload))
        store_u1_no_photo
      = (updated_u1, store_u1_photo_updated)"
  by (simp only: put_profile_def upload_png_run)
     (simp add: update_defs paths_u1 fs_defs store_u1_no_photo_def empty_store_def
      photo_update_def ann_record_def photo_names staged_png_def updated_u1_def
      store_u1_photo_updated_def)

text \<open>
  C10: every successful Update of an existing profile leaves the \<open>id\<close> and the
  \<open>createdAt\<close> of the stored record as they were, and every other property too, apart
  from \<open>name\<close>, \<open>address\<close>, \<open>contact\<close>, \<open>date\<close>, \<open>note\<close>, \<open>updatedAt\<close> and \<open>photo\<close>.
\<close>

theorem update_keeps_other_fields:
  assumes "update_handler now pid sreq fs = (resp, fs')" and "status resp = 200"
  shows "\<exists>old new.
           map_of fs (getJsonPath pid) = Some (File (Doc old))
         \<and> map_of fs' (getJsonPath pid) = Some (File (Doc new))
         \<and> map_of new ''id'' = map_of old ''id''
         \<and> map_of new ''createdAt'' = map_of old ''createdAt''
         \<and> (\<forall>k. k \<notin> {''name'', ''address'', ''contact'', ''date'', ''note'', ''updatedAt'', ''photo''}
                \<longrightarrow> map_of new k = map_of old k)"
proof -
  from update_handler_200 [OF assms] obtain old d1 d2 fs2 where
    old: "map_of fs (getJsonPath pid) = Some (File (Doc old))" and
    d1: "update_fields now sreq old = Inr d1" and
    d2: "case req_file sreq of None \<Rightarrow> d2 = d1 \<and> fs2 = fs
         | Some f \<Rightarrow> replace_photo pid f d1 fs = Inr (d2, fs2)" and
    wr: "writeFile (getJsonPath pid) (Doc d2) fs2 = Inr fs'"
    by blast
  from update_fields_Inr [OF d1] have k1:
    "\<And>k. k \<notin> {''name'', ''address'', ''contact'', ''date'', ''note'', ''updatedAt''}
        \<Longrightarrow> map_of d1 k = map_of old k"
    by auto
  have k2: "\<And>k. k \<noteq> ''photo'' \<Longrightarrow> map_of d2 k = map_of d1 k"
  proof (cases "req_file sreq")
    case None
    with d2 show "\<And>k. k \<noteq> ''photo'' \<Longrightarrow> map_of d2 k = map_of d1 k" by simp
  next
    case (Some f)
    with d2 have "replace_photo pid f d1 fs = Inr (d2, fs2)" by simp
    from replace_photo_Inr [OF this]
    show "\<And>k. k \<noteq> ''photo'' \<Longrightarrow> map_of d2 k = map_of d1 k" by auto
  qed
  have new: "map_of fs' (getJsonPath pid) = Some (File (Doc d2))"
    using map_of_writeFile [OF wr] by simp
  have "map_of d2 ''id'' = map_of old ''id''"
    using k1 [of "''id''"] k2 [of "''id''"] by simp
  moreover have "map_of d2 ''createdAt'' = map_of old ''createdAt''"
    using k1 [of "''createdAt''"] k2 [of "''createdAt''"] by simp
  moreover have "\<forall>k. k \<notin> {''name'', ''address'', ''contact'', ''date'', ''note'', ''updatedAt'', ''photo''}
                \<longrightarrow> map_of d2 k = map_of old k"
    using k1 k2 by simp
  ultimately show ?thesis using old new by blast
qed

theorem update_keeps_other_fields_witness:
  "update_handler ''T9'' ''u1'' text_update store_u1 = (updated_u1, store_u1_text_updated)
   \<and> status updated_u1 = 200
   \<and> (\<exists>old new.
           map_of store_u1 (getJsonPath ''u1'') = Some (File (Doc old))
         \<and> map_of store_u1_text_updated (getJsonPath ''u1'') = Some (File (Doc new))
         \<and> map_of new ''id'' = map_of old ''id''
         \<and> map_of new ''createdAt'' = map_of old ''createdAt''
         \<and> (\<forall>k. k \<notin> {''name'', ''address'', ''contact'', ''date'', ''note'', ''updatedAt'', ''photo''}
                \<longrightarrow> map_of new k = map_of old k))"
proof -
  have st: "status updated_u1 = 200" by (simp add: updated_u1_def)
  from update_keeps_other_fields [OF text_update_run st] text_update_run st
  show ?thesis by blast
qed

section \<open>Create: validation\<close>

text \<open>
  C3 (as stated, refuted): a Create request whose name is three blanks, with every
  other field and an image in order, is not rejected: the check is made on the value
  as sent, the answer is 200 and the profile is stored with the empty name.
\<close>

theorem create_accepts_blank_name:
  "post_profiles ''1700000000000-k3j9x2a1b'' ''u1'' ''T1'' ''T2''
     (form (Some ''   '') (Some ''X'') None (Some ''2024-01-01'') (Some ''hello'') (Some jpeg_upload))
     empty_store
   = (\<lparr>status = 200,
       body = SuccessLink ''u1'' ''/profile.html?id=u1'' ''Profile created successfully''\<rparr>,
      empty_store @
        [([''srv'', ''backend'', ''data'', ''profiles'', ''u1''], Dir),
         ([''srv'', ''backend'', ''data'', ''profiles'', ''u1'', ''photo.jpg''], File (Bytes ''JFIF'')),
         ([''srv'', ''backend'', ''data'', ''profiles'', ''u1'', ''profile.json''],
          File (Doc
            [(''id'', JStr ''u1''), (''name'', JStr []), (''address'', JStr ''X''),
             (''contact'', JNull), (''photo'', JStr ''photo.jpg''),
             (''date'', JStr ''2024-01-01''), (''note'', JStr ''hello''),
             (''createdAt'', JStr ''T1''), (''updatedAt'', JStr ''T2'')]))])"
  using create_run [of "''   ''" "''X''" "''2024-01-01''" "''hello''" "''T1''" "''T2''" None]
  by (simp add: trims contact_value_def created_u1_def)

text \<open>
  C3 (amended): for every Create request that the upload middleware passes on (no file,
  or an image within the size limit that could be staged), the answer is 400 exactly
  when one of name, address, date, note is missing or the empty string as sent, or no
  image file was supplied; the answer is then \<open>All fields are required\<close> and the
  handler leaves the file system as the middleware left it, which differs from the
  state before the request at most in the staged upload. No profile is created. A
  value made of white space only is not empty as sent, so it does not make the answer
  400. Whenever the answer is 200, the record stored for the new id holds the name, the
  address and the note trimmed (the empty string for a value of white space only) and
  the date exactly as sent, untrimmed.
\<close>

theorem create_validation:
  assumes "\<not> isl (fst (upload_single stamp req fs))"
  shows "(status (fst (post_profiles stamp uuid t1 t2 req fs)) = 400
            \<longleftrightarrow> (f_name req = None \<or> f_name req = Some [] \<or> f_address req = None \<or> f_address req = Some []
                 \<or> f_date req = None \<or> f_date req = Some [] \<or> f_note req = None \<or> f_note req = Some []
                 \<or> photo req = None))
       \<and> (status (fst (post_profiles stamp uuid t1 t2 req fs)) = 400
            \<longrightarrow> post_profiles stamp uuid t1 t2 req fs
                  = (\<lparr>status = 400, body = Failure ''All fields are required''\<rparr>,
                     snd (upload_single stamp req fs)))
       \<and> (\<forall>p. (\<forall>u. photo req = Some u \<longrightarrow> p \<noteq> staged_path stamp u)
              \<longrightarrow> map_of (snd (upload_single stamp req fs)) p = map_of fs p)
       \<and> (status (fst (post_profiles stamp uuid t1 t2 req fs)) = 200
            \<longrightarrow> (\<exists>n a dt t r. f_name req = Some n \<and> f_address req = Some a \<and> f_date req = Some dt
                   \<and> f_note req = Some t
                   \<and> map_of (snd (post_profiles stamp uuid t1 t2 req fs)) (getJsonPath uuid)
                       = Some (File (Doc r))
                   \<and> map_of r ''name'' = Some (JStr (trim n))
                   \<and> map_of r ''address'' = Some (JStr (trim a))
                   \<and> map_of r ''date'' = Some (JStr dt)
                   \<and> map_of r ''note'' = Some (JStr (trim t))))
       \<and> ((\<forall>c \<in> set s. is_space c) \<longrightarrow> trim s = [])"
proof -
  obtain r fs1 where up: "upload_single stamp req fs = (r, fs1)" by (cases "upload_single stamp req fs")
  with assms obtain sreq where r: "r = Inr sreq" by (cases r) auto
  note acc = upload_single_accepts [OF up [unfolded r]]
  have post: "post_profiles stamp uuid t1 t2 req fs = create_handler uuid t1 t2 sreq fs1"
    by (simp add: post_profiles_def up r)
  have fl: "req_file sreq = None \<longleftrightarrow> photo req = None"
    using acc by (auto split: option.splits)
  have inv: "(falsy (f_name sreq) \<or> falsy (f_address sreq) \<or> falsy (f_date sreq) \<or> falsy (f_note sreq)
             \<or> req_file sreq = None)
         \<longleftrightarrow> (f_name req = None \<or> f_name req = Some [] \<or> f_address req = None \<or> f_address req = Some []
                 \<or> f_date req = None \<or> f_date req = Some [] \<or> f_note req = None \<or> f_note req = Some []
                 \<or> photo req = None)"
    using acc fl by (auto simp: falsy_def)
  have a: "status (fst (post_profiles stamp uuid t1 t2 req fs)) = 400
            \<longleftrightarrow> (f_name req = None \<or> f_name req = Some [] \<or> f_address req = None \<or> f_address req = Some []
                 \<or> f_date req = None \<or> f_date req = Some [] \<or> f_note req = None \<or> f_note req = Some []
                 \<or> photo req = None)"
    unfolding post create_handler_status inv ..
  have b: "status (fst (post_profiles stamp uuid t1 t2 req fs)) = 400
            \<longrightarrow> post_profiles stamp uuid t1 t2 req fs
                  = (\<lparr>status = 400, body = Failure ''All fields are required''\<rparr>,
                     snd (upload_single stamp req fs))"
    unfolding post create_handler_status
    using create_handler_invalid [of sreq uuid t1 t2 fs1] by (simp add: up respond_def)
  have c: "\<forall>p. (\<forall>u. photo req = Some u \<longrightarrow> p \<noteq> staged_path stamp u)
              \<longrightarrow> map_of (snd (upload_single stamp req fs)) p = map_of fs p"
    using acc by (auto simp: up dest: map_of_writeFile split: option.splits)
  have d: "status (fst (post_profiles stamp uuid t1 t2 req fs)) = 200
            \<longrightarrow> (\<exists>n a dt t r. f_name req = Some n \<and> f_address req = Some a \<and> f_date req = Some dt
                   \<and> f_note req = Some t
                   \<and> map_of (snd (post_profiles stamp uuid t1 t2 req fs)) (getJsonPath uuid)
                       = Some (File (Doc r))
                   \<and> map_of r ''name'' = Some (JStr (trim n))
                   \<and> map_of r ''address'' = Some (JStr (trim a))
                   \<and> map_of r ''date'' = Some (JStr dt)
                   \<and> map_of r ''note'' = Some (JStr (trim t)))"
    using post_profiles_stored [of stamp uuid t1 t2 req fs] by blast
  have e: "(\<forall>c \<in> set s. is_space c) \<longrightarrow> trim s = []"
    using trim_blank [of s] by blast
  from a b c d e show ?thesis by blast
qed

theorem create_validation_witness:
  "\<not> isl (fst (upload_single ''1700000000000-k3j9x2a1b''
        (form None (Some ''X'') None (Some ''2024-01-01'') (Some ''hello'') (Some jpeg_upload))
        empty_store))
   \<and> status (fst (post_profiles ''1700000000000-k3j9x2a1b'' ''u1'' ''T1'' ''T2''
        (form None (Some ''X'') None (Some ''2024-01-01'') (Some ''hello'') (Some jpeg_upload))
        empty_store)) = 400
   \<and> post_profiles ''1700000000000-k3j9x2a1b'' ''u1'' ''T1'' ''T2''
        (form None (Some ''X'') None (Some ''2024-01-01'') (Some ''hello'') (Some jpeg_upload))
        empty_store
       = (\<lparr>status = 400, body = Failure ''All fields are required''\<rparr>, store_staged)
   \<and> map_of store_staged (getJsonPath ''u1'') = map_of empty_store (getJsonPath ''u1'')
   \<and> \<not> isl (fst (upload_single ''1700000000000-k3j9x2a1b''
        (form (Some ''Ann'') (Some ''   '') None (Some ''   '') (Some ''hello'') (Some jpeg_upload))
        empty_store))
   \<and> status (fst (post_profiles ''1700000000000-k3j9x2a1b'' ''u1'' ''T1'' ''T2''
        (form (Some ''Ann'') (Some ''   '') None (Some ''   '') (Some ''hello'') (Some jpeg_upload))
        empty_store)) = 200
   \<and> (\<exists>r. map_of (snd (post_profiles ''1700000000000-k3j9x2a1b'' ''u1'' ''T1'' ''T2''
               (form (Some ''Ann'') (Some ''   '') None (Some ''   '') (Some ''hello'') (Some jpeg_upload))
               empty_store)) (getJsonPath ''u1'') = Some (File (Doc r))
          \<and> map_of r ''name'' = Some (JStr ''Ann'')
          \<and> map_of r ''address'' = Some (JStr [])
          \<and> map_of r ''date'' = Some (JStr ''   '')
          \<and> map_of r ''note'' = Some (JStr ''hello''))
   \<and> trim ''   '' = []"
proof -
  let ?req = "form None (Some ''X'') None (Some ''2024-01-01'') (Some ''hello'') (Some jpeg_upload)"
  have h: "\<not> isl (fst (upload_single ''1700000000000-k3j9x2a1b'' ?req empty_store))"
    by (simp add: upload_jpeg_run)
  have n: "f_name ?req = None" by (simp add: form_def)
  have s: "snd (upload_single ''1700000000000-k3j9x2a1b'' ?req empty_store) = store_staged"
    by (simp add: upload_jpeg_run)
  have p: "photo ?req = Some jpeg_upload" by (simp add: form_def)
  have q: "getJsonPath ''u1'' \<noteq> staged_path ''1700000000000-k3j9x2a1b'' jpeg_upload"
    by (simp add: paths_u1 staged_jpeg staged_jpg_def)
  from create_validation [OF h, of "''u1''" "''T1''" "''T2''" "''   ''"] n s p q h
  have first: "status (fst (post_profiles ''1700000000000-k3j9x2a1b'' ''u1'' ''T1'' ''T2'' ?req
        empty_store)) = 400
   \<and> post_profiles ''1700000000000-k3j9x2a1b'' ''u1'' ''T1'' ''T2'' ?req empty_store
       = (\<lparr>status = 400, body = Failure ''All fields are required''\<rparr>, store_staged)
   \<and> map_of store_staged (getJsonPath ''u1'') = map_of empty_store (getJsonPath ''u1'')"
    by simp
  let ?req2 = "form (Some ''Ann'') (Some ''   '') None (Some ''   '') (Some ''hello'') (Some jpeg_upload)"
  have h2: "\<not> isl (fst (upload_single ''1700000000000-k3j9x2a1b'' ?req2 empty_store))"
    by (simp add: upload_jpeg_run)
  have st: "status (fst (post_profiles ''1700000000000-k3j9x2a1b'' ''u1'' ''T1'' ''T2'' ?req2
        empty_store)) = 200"
    using create_run [of "''Ann''" "''   ''" "''   ''" "''hello''" "''T1''" "''T2''" None]
    by (simp add: created_u1_def)
  have sp: "\<forall>c \<in> set ''   ''. is_space c" by (simp add: is_space_def)
  note t = create_validation [OF h2, of "''u1''" "''T1''" "''T2''" "''   ''"]
  from t sp have tb: "trim ''   '' = []" by blast
  from t st obtain n a dt t r where
    f: "f_name ?req2 = Some n" "f_address ?req2 = Some a" "f_date ?req2 = Some dt"
       "f_note ?req2 = Some t" and
    m: "map_of (snd (post_profiles ''1700000000000-k3j9x2a1b'' ''u1'' ''T1'' ''T2'' ?req2 empty_store))
          (getJsonPath ''u1'') = Some (File (Doc r))" and
    v: "map_of r ''name'' = Some (JStr (trim n))" "map_of r ''address'' = Some (JStr (trim a))"
       "map_of r ''date'' = Some (JStr dt)" "map_of r ''note'' = Some (JStr (trim t))"
    by blast
  from f have "n = ''Ann''" "a = ''   ''" "dt = ''   ''" "t = ''hello''"
    by (simp_all add: form_def)
  with v have v': "map_of r ''name'' = Some (JStr ''Ann'')" "map_of r ''address'' = Some (JStr [])"
       "map_of r ''date'' = Some (JStr ''   '')" "map_of r ''note'' = Some (JStr ''hello'')"
    by (simp_all add: trims)
  from m v' have ex: "\<exists>r. map_of (snd (post_profiles ''1700000000000-k3j9x2a1b'' ''u1'' ''T1'' ''T2''
               ?req2 empty_store)) (getJsonPath ''u1'') = Some (File (Doc r))
          \<and> map_of r ''name'' = Some (JStr ''Ann'')
          \<and> map_of r ''address'' = Some (JStr [])
          \<and> map_of r ''date'' = Some (JStr ''   '')
          \<and> map_of r ''note'' = Some (JStr ''hello'')"
    by blast
  from h first h2 st ex tb show ?thesis by blast
qed

text \<open>
  C4 (as stated, refuted): a Create request without a note but with an image fails
  validation with 400, and the file system is not what it was: the upload middleware
  has staged the image in the temporary directory, and nothing removes it.
\<close>

theorem failed_validation_keeps_staged_upload:
  "post_profiles ''1700000000000-k3j9x2a1b'' ''u1'' ''T1'' ''T2''
     (form (Some ''Ann'') (Some ''X'') None (Some ''2024-01-01'') None (Some jpeg_upload))
     empty_store
   = (\<lparr>status = 400, body = Failure ''All fields are required''\<rparr>,
      empty_store @ [([''srv'', ''backend'', ''temp'', ''1700000000000-k3j9x2a1b.JPG''],
                      File (Bytes ''JFIF''))])
   \<and> empty_store @ [([''srv'', ''backend'', ''temp'', ''1700000000000-k3j9x2a1b.JPG''],
                      File (Bytes ''JFIF''))] \<noteq> empty_store"
  using create_handler_invalid [of "staged_form (Some ''Ann'') (Some ''X'') None (Some ''2024-01-01'') None"
      "''u1''" "''T1''" "''T2''" store_staged]
  by (simp add: post_profiles_def upload_jpeg_run falsy_def staged_form_def store_staged_def
      staged_jpg_def respond_def)

text \<open>
  C4 (amended): for every Create request that fails validation (one of name, address,
  date, note missing or empty, or no image file), the handler itself changes nothing:
  the file system afterwards is the one the upload middleware left. It equals the state
  before the request when no image was supplied; when an image was supplied, every path
  other than the staging path is as before, and if the middleware accepted the image,
  the staged copy is still in the temporary directory.
\<close>

theorem failed_validation_effect:
  assumes "f_name req = None \<or> f_name req = Some [] \<or> f_address req = None \<or> f_address req = Some []
           \<or> f_date req = None \<or> f_date req = Some [] \<or> f_note req = None \<or> f_note req = Some []
           \<or> photo req = None"
  shows "snd (post_profiles stamp uuid t1 t2 req fs) = snd (upload_single stamp req fs)
       \<and> (photo req = None \<longrightarrow> snd (post_profiles stamp uuid t1 t2 req fs) = fs)
       \<and> (\<forall>u p. photo req = Some u \<and> p \<noteq> staged_path stamp u
              \<longrightarrow> map_of (snd (post_profiles stamp uuid t1 t2 req fs)) p = map_of fs p)
       \<and> (\<forall>u. photo req = Some u \<and> \<not> isl (fst (upload_single stamp req fs))
              \<longrightarrow> map_of (snd (post_profiles stamp uuid t1 t2 req fs)) (staged_path stamp u)
                    = Some (File (filedata u)))"
proof -
  obtain r fs1 where up: "upload_single stamp req fs = (r, fs1)" by (cases "upload_single stamp req fs")
  have a: "snd (post_profiles stamp uuid t1 t2 req fs) = fs1"
  proof (cases r)
    case (Inl err)
    then show ?thesis by (simp add: post_profiles_def up)
  next
    case (Inr sreq)
    note acc = upload_single_accepts [OF up [unfolded Inr]]
    have "req_file sreq = None \<longleftrightarrow> photo req = None"
      using acc by (auto split: option.splits)
    with assms acc have "falsy (f_name sreq) \<or> falsy (f_address sreq) \<or> falsy (f_date sreq)
        \<or> falsy (f_note sreq) \<or> req_file sreq = None"
      by (auto simp: falsy_def)
    from create_handler_invalid [OF this] show ?thesis
      by (simp add: post_profiles_def up Inr)
  qed
  have b: "photo req = None \<longrightarrow> fs1 = fs"
    using up by (auto simp: upload_single_def)
  have c: "\<forall>u p. photo req = Some u \<and> p \<noteq> staged_path stamp u \<longrightarrow> map_of fs1 p = map_of fs p"
  proof (cases r)
    case (Inl err)
    with up upload_single_rejects show ?thesis by blast
  next
    case (Inr sreq)
    note acc = upload_single_accepts [OF up [unfolded Inr]]
    show ?thesis
    proof (intro allI impI)
      fix u p
      assume h: "photo req = Some u \<and> p \<noteq> staged_path stamp u"
      with acc have "writeFile (staged_path stamp u) (filedata u) fs = Inr fs1" by simp
      from map_of_writeFile [OF this] h show "map_of fs1 p = map_of fs p" by simp
    qed
  qed
  have d: "\<forall>u. photo req = Some u \<and> \<not> isl (fst (upload_single stamp req fs))
              \<longrightarrow> map_of fs1 (staged_path stamp u) = Some (File (filedata u))"
  proof (cases r)
    case (Inl err)
    then show ?thesis by (simp add: up)
  next
    case (Inr sreq)
    note acc = upload_single_accepts [OF up [unfolded Inr]]
    show ?thesis
    proof (intro allI impI)
      fix u
      assume h: "photo req = Some u \<and> \<not> isl (fst (upload_single stamp req fs))"
      with acc have "writeFile (staged_path stamp u) (filedata u) fs = Inr fs1" by simp
      from map_of_writeFile [OF this] show "map_of fs1 (staged_path stamp u) = Some (File (filedata u))"
        by simp
    qed
  qed
  from a b c d show ?thesis by (simp add: up)
qed

theorem failed_validation_effect_witness:
  "f_address (form (Some ''Ann'') (Some []) None (Some ''2024-01-01'') (Some ''hello'') (Some jpeg_upload)) = Some []
   \<and> snd (post_profiles ''1700000000000-k3j9x2a1b'' ''u1'' ''T1'' ''T2''
        (form (Some ''Ann'') (Some []) None (Some ''2024-01-01'') (Some ''hello'') (Some jpeg_upload))
        empty_store) = store_staged
   \<and> map_of store_staged (getJsonPath ''u1'') = map_of empty_store (getJsonPath ''u1'')
   \<and> map_of store_staged (staged_path ''1700000000000-k3j9x2a1b'' jpeg_upload)
       = Some (File (filedata jpeg_upload))"
proof -
  let ?req = "form (Some ''Ann'') (Some []) None (Some ''2024-01-01'') (Some ''hello'') (Some jpeg_upload)"
  have h: "f_name ?req = None \<or> f_name ?req = Some [] \<or> f_address ?req = None \<or> f_address ?req = Some []
           \<or> f_date ?req = None \<or> f_date ?req = Some [] \<or> f_note ?req = None \<or> f_note ?req = Some []
           \<or> photo ?req = None"
    by (simp add: form_def)
  have s: "snd (upload_single ''1700000000000-k3j9x2a1b'' ?req empty_store) = store_staged"
    by (simp add: upload_jpeg_run)
  have i: "\<not> isl (fst (upload_single ''1700000000000-k3j9x2a1b'' ?req empty_store))"
    by (simp add: upload_jpeg_run)
  have p: "photo ?req = Some jpeg_upload" by (simp add: form_def)
  have q: "getJsonPath ''u1'' \<noteq> staged_path ''1700000000000-k3j9x2a1b'' jpeg_upload"
    by (simp add: paths_u1 staged_jpeg staged_jpg_def)
  have a: "f_address ?req = Some []" by (simp add: form_def)
  note t = failed_validation_effect [OF h, of "''1700000000000-k3j9x2a1b''" "''u1''" "''T1''" "''T2''" empty_store]
  from t s have r: "snd (post_profiles ''1700000000000-k3j9x2a1b'' ''u1'' ''T1'' ''T2'' ?req empty_store)
      = store_staged" by simp
  from t p q have "map_of (snd (post_profiles ''1700000000000-k3j9x2a1b'' ''u1'' ''T1'' ''T2'' ?req empty_store))
      (getJsonPath ''u1'') = map_of empty_store (getJsonPath ''u1'')" by blast
  moreover from t p i have "map_of (snd (post_profiles ''1700000000000-k3j9x2a1b'' ''u1'' ''T1'' ''T2'' ?req empty_store))
      (staged_path ''1700000000000-k3j9x2a1b'' jpeg_upload) = Some (File (filedata jpeg_upload))" by blast
  ultimately show ?thesis using r a by simp
qed

section \<open>The stored record: photo name and contact\<close>

text \<open>
  C8 (as stated, refuted): an image uploaded under the name \<open>README\<close> is stored as
  \<open>photo\<close>, and the record says so: the stored photo name has no extension and is not
  of the form \<open>photo.<ext>\<close>.
\<close>

theorem photo_without_extension:
  "post_profiles ''1700000000002-m4n5b6v7c'' ''u1'' ''T1'' ''T2''
     (form (Some ''Ann'') (Some ''X'') None (Some ''2024-01-01'') (Some ''hello'') (Some readme_upload))
     empty_store
   = (\<lparr>status = 200,
       body = SuccessLink ''u1'' ''/profile.html?id=u1'' ''Profile created successfully''\<rparr>,
      empty_store @
        [([''srv'', ''backend'', ''data'', ''profiles'', ''u1''], Dir),
         ([''srv'', ''backend'', ''data'', ''profiles'', ''u1'', ''photo''], File (Bytes ''PNG'')),
         ([''srv'', ''backend'', ''data'', ''profiles'', ''u1'', ''profile.json''],
          File (Doc
            [(''id'', JStr ''u1''), (''name'', JStr ''Ann''), (''address'', JStr ''X''),
             (''contact'', JNull), (''photo'', JStr ''photo''),
             (''date'', JStr ''2024-01-01''), (''note'', JStr ''hello''),
             (''createdAt'', JStr ''T1''), (''updatedAt'', JStr ''T2'')]))])
   \<and> CHR ''.'' \<notin> set ''photo''"
  by (simp only: post_profiles_def upload_readme_run)
     (simp add: create_handler_def create_body_def falsy_def
      paths_u1 mkdir_recursive_def ancestors_u1 fs_defs empty_store_def photo_names
      trim_field_def trims contact_value_def object_def respond_def profile_link_def Let_def)

text \<open>
  C8 (amended): for every profile produced by Create, and for every Update that brings
  an image, the stored photo field is \<open>photo\<close> followed by the lowercased extension of
  the uploaded file's name, where the extension is what \<open>path.extname\<close> gives: empty, or
  a dot followed by characters without a dot or a separator; it is empty whenever the
  name has no dot. An Update without an image leaves the photo field as it was.
\<close>

theorem photo_field_form:
  "(create_handler uuid t1 t2 sreq fs = (resp, fs') \<and> status resp = 200 \<longrightarrow>
      (\<exists>f d. req_file sreq = Some f
           \<and> map_of fs' (getJsonPath uuid) = Some (File (Doc d))
           \<and> map_of d ''photo'' = Some (JStr (''photo'' @ toLowerCase (extname (file_originalname f))))))
   \<and> (update_handler now pid sreq fs = (resp, fs') \<and> status resp = 200 \<longrightarrow>
      (\<exists>old d. map_of fs (getJsonPath pid) = Some (File (Doc old))
           \<and> map_of fs' (getJsonPath pid) = Some (File (Doc d))
           \<and> (case req_file sreq of
                 None \<Rightarrow> map_of d ''photo'' = map_of old ''photo''
               | Some f \<Rightarrow>
                   map_of d ''photo''
                     = Some (JStr (''photo'' @ toLowerCase (extname (file_originalname f)))))))
   \<and> (extname n = [] \<or> (\<exists>e. extname n = CHR ''.'' # e \<and> CHR ''.'' \<notin> set e \<and> CHR ''/'' \<notin> set e))
   \<and> (CHR ''.'' \<notin> set n \<longrightarrow> extname n = [])"
proof -
  have a: "create_handler uuid t1 t2 sreq fs = (resp, fs') \<and> status resp = 200 \<longrightarrow>
      (\<exists>f d. req_file sreq = Some f
           \<and> map_of fs' (getJsonPath uuid) = Some (File (Doc d))
           \<and> map_of d ''photo'' = Some (JStr (''photo'' @ toLowerCase (extname (file_originalname f)))))"
  proof
    assume h: "create_handler uuid t1 t2 sreq fs = (resp, fs') \<and> status resp = 200"
    then have h1: "create_handler uuid t1 t2 sreq fs = (resp, fs')" and h2: "status resp = 200"
      by simp_all
    from create_handler_200 [OF h1 h2]
    obtain f nm a dt t fs2 where f: "req_file sreq = Some f"
      and w0: "writeFile (getJsonPath uuid)
                (Doc [(''id'', JStr uuid), (''name'', JStr (trim nm)), (''address'', JStr (trim a)),
                      (''contact'', contact_value (f_contact sreq)),
                      (''photo'', JStr (photo_name (file_originalname f))),
                      (''date'', JStr dt), (''note'', JStr (trim t)),
                      (''createdAt'', JStr t1), (''updatedAt'', JStr t2)]) fs2 = Inr fs'"
      by blast
    define d where "d = [(''id'', JStr uuid), (''name'', JStr (trim nm)), (''address'', JStr (trim a)),
                      (''contact'', contact_value (f_contact sreq)),
                      (''photo'', JStr (photo_name (file_originalname f))),
                      (''date'', JStr dt), (''note'', JStr (trim t)),
                      (''createdAt'', JStr t1), (''updatedAt'', JStr t2)]"
    have p: "map_of d ''photo'' = Some (JStr (photo_name (file_originalname f)))"
      by (simp add: d_def)
    have w: "writeFile (getJsonPath uuid) (Doc d) fs2 = Inr fs'"
      using w0 by (simp add: d_def)
    from map_of_writeFile [OF w] have "map_of fs' (getJsonPath uuid) = Some (File (Doc d))" by simp
    with f p show "\<exists>f d. req_file sreq = Some f
           \<and> map_of fs' (getJsonPath uuid) = Some (File (Doc d))
           \<and> map_of d ''photo'' = Some (JStr (''photo'' @ toLowerCase (extname (file_originalname f))))"
      by (auto simp: photo_name_def)
  qed
  have b: "update_handler now pid sreq fs = (resp, fs') \<and> status resp = 200 \<longrightarrow>
      (\<exists>old d. map_of fs (getJsonPath pid) = Some (File (Doc old))
           \<and> map_of fs' (getJsonPath pid) = Some (File (Doc d))
           \<and> (case req_file sreq of
                 None \<Rightarrow> map_of d ''photo'' = map_of old ''photo''
               | Some f \<Rightarrow>
                   map_of d ''photo''
                     = Some (JStr (''photo'' @ toLowerCase (extname (file_originalname f))))))"
  proof
    assume h: "update_handler now pid sreq fs = (resp, fs') \<and> status resp = 200"
    then have h1: "update_handler now pid sreq fs = (resp, fs')" and h2: "status resp = 200"
      by simp_all
    from update_handler_200 [OF h1 h2] obtain old d1 d2 fs2 where
      old: "map_of fs (getJsonPath pid) = Some (File (Doc old))" and
      d1: "update_fields now sreq old = Inr d1" and
      d2: "case req_file sreq of None \<Rightarrow> d2 = d1 \<and> fs2 = fs
           | Some f \<Rightarrow> replace_photo pid f d1 fs = Inr (d2, fs2)" and
      wr: "writeFile (getJsonPath pid) (Doc d2) fs2 = Inr fs'"
      by blast
    from update_fields_Inr [OF d1] have p1: "map_of d1 ''photo'' = map_of old ''photo''" by auto
    have new: "map_of fs' (getJsonPath pid) = Some (File (Doc d2))"
      using map_of_writeFile [OF wr] by simp
    have "case req_file sreq of
            None \<Rightarrow> map_of d2 ''photo'' = map_of old ''photo''
          | Some f \<Rightarrow> map_of d2 ''photo''
                     = Some (JStr (''photo'' @ toLowerCase (extname (file_originalname f))))"
    proof (cases "req_file sreq")
      case None
      with d2 p1 show ?thesis by simp
    next
      case (Some f)
      with d2 have "replace_photo pid f d1 fs = Inr (d2, fs2)" by simp
      from replace_photo_Inr [OF this] Some show ?thesis by (auto simp: photo_name_def)
    qed
    with old new show "\<exists>old d. map_of fs (getJsonPath pid) = Some (File (Doc old))
           \<and> map_of fs' (getJsonPath pid) = Some (File (Doc d))
           \<and> (case req_file sreq of
                 None \<Rightarrow> map_of d ''photo'' = map_of old ''photo''
               | Some f \<Rightarrow>
                   map_of d ''photo''
                     = Some (JStr (''photo'' @ toLowerCase (extname (file_originalname f)))))"
      by blast
  qed
  have c: "CHR ''.'' \<notin> set n \<longrightarrow> extname n = []"
  proof
    assume "CHR ''.'' \<notin> set n"
    moreover have "set (basename_part n) \<subseteq> set n"
      by (auto simp: basename_part_def dest!: set_takeWhileD set_dropWhileD)
    ultimately show "extname n = []" by (auto simp: extname_def Let_def)
  qed
  from a b c extname_form [of n] show ?thesis by blast
qed

theorem photo_field_form_witness:
  "create_handler ''u1'' ''T1'' ''T2''
     (staged_form (Some ''Ann'') (Some ''X'') None (Some ''2024-01-01'') (Some ''hello'')) store_staged
     = (created_u1, store_u1)
   \<and> status created_u1 = 200
   \<and> (\<exists>d. map_of store_u1 (getJsonPath ''u1'') = Some (File (Doc d))
          \<and> map_of d ''photo'' = Some (JStr ''photo.jpg''))
   \<and> update_handler ''T9'' ''u1'' photo_update store_u1_staged = (updated_u1, store_u1_photo_updated)
   \<and> status updated_u1 = 200
   \<and> (\<exists>d. map_of store_u1_photo_updated (getJsonPath ''u1'') = Some (File (Doc d))
          \<and> map_of d ''photo'' = Some (JStr ''photo.png''))
   \<and> CHR ''.'' \<notin> set ''README'' \<and> extname ''README'' = []"
proof -
  let ?sreq = "staged_form (Some ''Ann'') (Some ''X'') None (Some ''2024-01-01'') (Some ''hello'')"
  have s1: "status created_u1 = 200" by (simp add: created_u1_def)
  have s2: "status updated_u1 = 200" by (simp add: updated_u1_def)
  note t1 = photo_field_form [of "''u1''" "''T1''" "''T2''" ?sreq store_staged created_u1 store_u1
      "''T9''" "''u1''" "''README''"]
  from t1 create_ann_run s1 obtain f d where
    f: "req_file ?sreq = Some f" and
    d: "map_of store_u1 (getJsonPath ''u1'') = Some (File (Doc d))" and
    p: "map_of d ''photo'' = Some (JStr (''photo'' @ toLowerCase (extname (file_originalname f))))"
    by blast
  from f have "file_originalname f = ''Cat.JPG''" by (auto simp: staged_form_def)
  with p have "map_of d ''photo'' = Some (JStr ''photo.jpg'')"
    by (simp add: lower_exts)
  with d have a: "\<exists>d. map_of store_u1 (getJsonPath ''u1'') = Some (File (Doc d))
          \<and> map_of d ''photo'' = Some (JStr ''photo.jpg'')"
    by blast
  have r': "CHR ''.'' \<notin> set ''README''" by simp
  with t1 have r: "extname ''README'' = []" by blast
  note t2 = photo_field_form [of "''u1''" "''T1''" "''T2''" photo_update store_u1_staged updated_u1
      store_u1_photo_updated "''T9''" "''u1''" "''README''"]
  from t2 photo_update_run s2 obtain old d2 where
    d2: "map_of store_u1_photo_updated (getJsonPath ''u1'') = Some (File (Doc d2))" and
    p2: "case req_file photo_update of
           None \<Rightarrow> map_of d2 ''photo'' = map_of old ''photo''
         | Some f \<Rightarrow> map_of d2 ''photo''
                     = Some (JStr (''photo'' @ toLowerCase (extname (file_originalname f))))"
    by blast
  from p2 have "map_of d2 ''photo'' = Some (JStr ''photo.png'')"
    by (simp add: photo_update_def lower_exts)
  with d2 have b: "\<exists>d. map_of store_u1_photo_updated (getJsonPath ''u1'') = Some (File (Doc d))
          \<and> map_of d ''photo'' = Some (JStr ''photo.png'')"
    by blast
  from create_ann_run s1 a photo_update_run s2 b r r' show ?thesis by blast
qed

text \<open>
  C9 (as stated, refuted): a Create request whose contact is three blanks stores the
  contact as the empty string, not as \<open>null\<close>.
\<close>

theorem blank_contact_stored_empty:
  "post_profiles ''1700000000000-k3j9x2a1b'' ''u1'' ''T1'' ''T2''
     (form (Some ''Ann'') (Some ''X'') (Some ''   '') (Some ''2024-01-01'') (Some ''hello'')
        (Some jpeg_upload))
     empty_store
   = (\<lparr>status = 200,
       body = SuccessLink ''u1'' ''/profile.html?id=u1'' ''Profile created successfully''\<rparr>,
      empty_store @
        [([''srv'', ''backend'', ''data'', ''profiles'', ''u1''], Dir),
         ([''srv'', ''backend'', ''data'', ''profiles'', ''u1'', ''photo.jpg''], File (Bytes ''JFIF'')),
         ([''srv'', ''backend'', ''data'', ''profiles'', ''u1'', ''profile.json''],
          File (Doc
            [(''id'', JStr ''u1''), (''name'', JStr ''Ann''), (''address'', JStr ''X''),
             (''contact'', JStr []), (''photo'', JStr ''photo.jpg''),
             (''date'', JStr ''2024-01-01''), (''note'', JStr ''hello''),
             (''createdAt'', JStr ''T1''), (''updatedAt'', JStr ''T2'')]))])"
  using create_run [of "''Ann''" "''X''" "''2024-01-01''" "''hello''" "''T1''" "''T2''" "Some ''   ''"]
  by (simp add: trims contact_value_def created_u1_def)

text \<open>
  C9 (amended): for every successful Create or Update, a contact that is absent or the
  empty string as sent is stored as \<open>null\<close>; any other contact is stored trimmed, so a
  whitespace-only contact is stored as the empty string.
\<close>

theorem contact_stored:
  "(create_handler uuid t1 t2 sreq fs = (resp, fs') \<and> status resp = 200 \<longrightarrow>
      (\<exists>d. map_of fs' (getJsonPath uuid) = Some (File (Doc d))
         \<and> map_of d ''contact''
             = Some (case f_contact sreq of
                       None \<Rightarrow> JNull
                     | Some c \<Rightarrow> if c = [] then JNull else JStr (trim c))))
   \<and> (update_handler now pid sreq fs = (resp, fs') \<and> status resp = 200 \<longrightarrow>
      (\<exists>d. map_of fs' (getJsonPath pid) = Some (File (Doc d))
         \<and> map_of d ''contact''
             = Some (case f_contact sreq of
                       None \<Rightarrow> JNull
                     | Some c \<Rightarrow> if c = [] then JNull else JStr (trim c))))"
proof -
  have a: "create_handler uuid t1 t2 sreq fs = (resp, fs') \<and> status resp = 200 \<longrightarrow>
      (\<exists>d. map_of fs' (getJsonPath uuid) = Some (File (Doc d))
         \<and> map_of d ''contact'' = Some (contact_value (f_contact sreq)))"
  proof
    assume h: "create_handler uuid t1 t2 sreq fs = (resp, fs') \<and> status resp = 200"
    then have h1: "create_handler uuid t1 t2 sreq fs = (resp, fs')" and h2: "status resp = 200"
      by simp_all
    from create_handler_200 [OF h1 h2]
    obtain f nm a dt t fs2 where f: "req_file sreq = Some f" and
      w0: "writeFile (getJsonPath uuid)
                (Doc [(''id'', JStr uuid), (''name'', JStr (trim nm)), (''address'', JStr (trim a)),
                      (''contact'', contact_value (f_contact sreq)),
                      (''photo'', JStr (photo_name (file_originalname f))),
                      (''date'', JStr dt), (''note'', JStr (trim t)),
                      (''createdAt'', JStr t1), (''updatedAt'', JStr t2)]) fs2 = Inr fs'"
      by blast
    from map_of_writeFile [OF w0]
    show "\<exists>d. map_of fs' (getJsonPath uuid) = Some (File (Doc d))
         \<and> map_of d ''contact'' = Some (contact_value (f_contact sreq))"
      by simp
  qed
  have b: "update_handler now pid sreq fs = (resp, fs') \<and> status resp = 200 \<longrightarrow>
      (\<exists>d. map_of fs' (getJsonPath pid) = Some (File (Doc d))
         \<and> map_of d ''contact'' = Some (contact_value (f_contact sreq)))"
  proof
    assume h: "update_handler now pid sreq fs = (resp, fs') \<and> status resp = 200"
    then have h1: "update_handler now pid sreq fs = (resp, fs')" and h2: "status resp = 200"
      by simp_all
    from update_handler_200 [OF h1 h2] obtain old d1 d2 fs2 where
      d1: "update_fields now sreq old = Inr d1" and
      d2: "case req_file sreq of None \<Rightarrow> d2 = d1 \<and> fs2 = fs
           | Some f \<Rightarrow> replace_photo pid f d1 fs = Inr (d2, fs2)" and
      wr: "writeFile (getJsonPath pid) (Doc d2) fs2 = Inr fs'"
      by blast
    from update_fields_Inr [OF d1]
    have c1: "map_of d1 ''contact'' = Some (contact_value (f_contact sreq))" by auto
    have "map_of d2 ''contact'' = map_of d1 ''contact''"
    proof (cases "req_file sreq")
      case None
      with d2 show ?thesis by simp
    next
      case (Some f)
      with d2 have "replace_photo pid f d1 fs = Inr (d2, fs2)" by simp
      from replace_photo_Inr [OF this] show ?thesis by auto
    qed
    with c1 map_of_writeFile [OF wr]
    show "\<exists>d. map_of fs' (getJsonPath pid) = Some (File (Doc d))
         \<and> map_of d ''contact'' = Some (contact_value (f_contact sreq))"
      by simp
  qed
  have c: "contact_value (f_contact sreq)
           = (case f_contact sreq of None \<Rightarrow> JNull | Some c \<Rightarrow> if c = [] then JNull else JStr (trim c))"
    by (simp add: contact_value_def)
  from a b show ?thesis unfolding c by blast
qed

theorem contact_stored_witness:
  "create_handler ''u1'' ''T1'' ''T2''
     (staged_form (Some ''Ann'') (Some ''X'') None (Some ''2024-01-01'') (Some ''hello'')) store_staged
     = (created_u1, store_u1)
   \<and> status created_u1 = 200
   \<and> (\<exists>d. map_of store_u1 (getJsonPath ''u1'') = Some (File (Doc d))
          \<and> map_of d ''contact'' = Some JNull)
   \<and> update_handler ''T9'' ''u1'' text_update store_u1 = (updated_u1, store_u1_text_updated)
   \<and> status updated_u1 = 200
   \<and> (\<exists>d. map_of store_u1_text_updated (getJsonPath ''u1'') = Some (File (Doc d))
          \<and> map_of d ''contact'' = Some (JStr ''555''))"
proof -
  let ?sreq = "staged_form (Some ''Ann'') (Some ''X'') None (Some ''2024-01-01'') (Some ''hello'')"
  have s1: "status created_u1 = 200" by (simp add: created_u1_def)
  have s2: "status updated_u1 = 200" by (simp add: updated_u1_def)
  have tr: "trim ''555'' = ''555''" by (simp add: trim_def is_space_def)
  have c1: "f_contact ?sreq = None" by (simp add: staged_form_def)
  have c2: "f_contact text_update = Some ''555''" by (simp add: text_update_def)
  note t1 = contact_stored [of "''u1''" "''T1''" "''T2''" ?sreq store_staged created_u1 store_u1
      "''T9''" "''u1''"]
  from t1 create_ann_run s1
  have a: "\<exists>d. map_of store_u1 (getJsonPath ''u1'') = Some (File (Doc d))
          \<and> map_of d ''contact'' = Some JNull"
    unfolding c1 by simp
  note t2 = contact_stored [of "''u1''" "''T1''" "''T2''" text_update store_u1 updated_u1
      store_u1_text_updated "''T9''" "''u1''"]
  from t2 text_update_run s2
  have b: "\<exists>d. map_of store_u1_text_updated (getJsonPath ''u1'') = Some (File (Doc d))
          \<and> map_of d ''contact'' = Some (JStr ''555'')"
    unfolding c2 by (simp add: tr)
  from create_ann_run s1 a text_update_run s2 b show ?thesis by blast
qed

section \<open>List and Get\<close>

text \<open>
  C2 (as stated, refuted): in a store with the valid profile \<open>u1\<close> and a second folder
  whose metadata file was cut short, List does not return the summary of \<open>u1\<close>: the
  parse error of the neighbour ends the request with 500.
\<close>

theorem list_fails_on_damaged_neighbour:
  "store_folders store_cut_short = Inr [''u1'', ''u2'']
   \<and> read_json (getJsonPath ''u1'') store_cut_short = Inr ann_record
   \<and> read_json (getJsonPath ''u2'') store_cut_short = Inl SyntaxError
   \<and> list_handler example_dates store_cut_short
       = \<lparr>status = 500, body = Failure ''Failed to fetch profiles''\<rparr>"
  by (simp add: folders_cut_short list_cut_short)
     (simp add: paths_u1 paths_more fs_defs store_cut_short_def store_u1_def empty_store_def)

text \<open>
  C2 (amended): for every store whose folders can be listed and in which every metadata
  file that exists is a readable record with a string note, List answers 200 with one
  summary per folder that has a metadata file, each built from that folder's record:
  id, name and date as recorded, the photo path \<open>/images/<id>/<photo>\<close>, and as note the
  first 50 characters of the recorded note followed by \<open>...\<close> exactly when the note is
  longer than 50 characters. The summaries are returned in the order of the comparator
  \<open>new Date(b.date) - new Date(a.date)\<close>; when every date is a valid date this is by
  date descending, newest first. (With a date that is not valid the comparator yields
  NaN and the order is not by date, see \<open>order_lost_at_unparseable_date\<close>.)
\<close>

theorem list_summaries:
  assumes "store_folders fs = Inr folders"
      and "\<forall>f \<in> set folders. pathExists (getJsonPath f) fs \<longrightarrow>
             (\<exists>d s. map_of fs (getJsonPath f) = Some (File (Doc d)) \<and> map_of d ''note'' = Some (JStr s))"
  shows "\<exists>ps qs.
           list_handler D fs = \<lparr>status = 200, body = Listing ps\<rparr>
         \<and> list_all2 (\<lambda>f p. \<exists>d s. map_of fs (getJsonPath f) = Some (File (Doc d))
                          \<and> map_of d ''note'' = Some (JStr s)
                          \<and> p = \<lparr>s_id = map_of d ''id'', s_name = map_of d ''name'',
                                  s_date = map_of d ''date'',
                                  s_photo = ''/images/'' @ to_string (map_of d ''id'') @ ''/''
                                              @ to_string (map_of d ''photo''),
                                  s_note = take 50 s @ (if 50 < length s then ''...'' else [])\<rparr>)
             (filter (\<lambda>f. pathExists (getJsonPath f) fs) folders) qs
         \<and> mset ps = mset qs
         \<and> ((\<forall>p \<in> set ps. new_Date D (s_date p) \<noteq> None) \<longrightarrow> sorted_wrt (not_older D) ps)"
proof -
  from scan_folders_valid [OF assms(2)] obtain qs where
    qs: "scan_folders fs folders = Inr qs" and
    rel: "list_all2 (\<lambda>f p. \<exists>d s. map_of fs (getJsonPath f) = Some (File (Doc d))
                          \<and> map_of d ''note'' = Some (JStr s)
                          \<and> p = \<lparr>s_id = map_of d ''id'', s_name = map_of d ''name'',
                                  s_date = map_of d ''date'',
                                  s_photo = ''/images/'' @ to_string (map_of d ''id'') @ ''/''
                                              @ to_string (map_of d ''photo''),
                                  s_note = take 50 s @ (if 50 < length s then ''...'' else [])\<rparr>)
             (filter (\<lambda>f. pathExists (getJsonPath f) fs) folders) qs"
    by blast
  let ?ps = "sort_by (by_date D) qs"
  have a: "list_handler D fs = \<lparr>status = 200, body = Listing ?ps\<rparr>"
    by (simp add: list_handler_def list_from_def assms(1) qs respond_def)
  have b: "mset ?ps = mset qs" by (rule mset_sort_by)
  have c: "(\<forall>p \<in> set ?ps. new_Date D (s_date p) \<noteq> None) \<longrightarrow> sorted_wrt (not_older D) ?ps"
    by (simp add: set_sort_by sorted_sort_by)
  from a rel b c show ?thesis by blast
qed

theorem list_summaries_witness:
  "store_folders store_two = Inr [''u1'', ''u2'', ''lost+found'']
   \<and> filter (\<lambda>f. pathExists (getJsonPath f) store_two) [''u1'', ''u2'', ''lost+found''] = [''u1'', ''u2'']
   \<and> list_handler example_dates store_two = \<lparr>status = 200, body = Listing [bob_summary, ann_summary]\<rparr>
   \<and> sorted_wrt (not_older example_dates) [bob_summary, ann_summary]
   \<and> s_note bob_summary = take 50 bob_note @ ''...''
   \<and> s_note ann_summary = ''hello''"
proof -
  have ex: "pathExists (getJsonPath ''u1'') store_two" "pathExists (getJsonPath ''u2'') store_two"
    "\<not> pathExists (getJsonPath ''lost+found'') store_two"
    by (simp_all add: paths_u1 paths_more pathExists_def store_two_def store_u1_def empty_store_def)
  have h: "\<forall>f \<in> set [''u1'', ''u2'', ''lost+found'']. pathExists (getJsonPath f) store_two \<longrightarrow>
             (\<exists>d s. map_of store_two (getJsonPath f) = Some (File (Doc d)) \<and> map_of d ''note'' = Some (JStr s))"
    using ex
    by (simp add: paths_u1 paths_more store_two_def store_u1_def empty_store_def
        ann_record_def bob_record_def)
  from list_summaries [OF folders_two h, of example_dates] obtain ps qs where
    l: "list_handler example_dates store_two = \<lparr>status = 200, body = Listing ps\<rparr>" and
    s: "(\<forall>p \<in> set ps. new_Date example_dates (s_date p) \<noteq> None)
          \<longrightarrow> sorted_wrt (not_older example_dates) ps"
    by blast
  from l have ps: "ps = [bob_summary, ann_summary]" by (simp add: list_two)
  have "\<forall>p \<in> set [bob_summary, ann_summary]. new_Date example_dates (s_date p) \<noteq> None"
    by (simp add: new_Date_def example_dates_def ann_summary_def bob_summary_def)
  with s ps have srt: "sorted_wrt (not_older example_dates) [bob_summary, ann_summary]" by simp
  have n: "s_note bob_summary = take 50 bob_note @ ''...''" "s_note ann_summary = ''hello''"
    by (simp_all add: bob_summary_def bob_note_def ann_summary_def)
  from folders_two ex list_two srt n show ?thesis by simp
qed

text \<open>
  C7 (as stated, refuted): a store whose only folder holds a metadata file that cannot
  be parsed makes List fail with 500; the folder is not skipped.
\<close>

theorem list_fails_on_damaged_metadata:
  "store_folders store_damaged = Inr [''u2'']
   \<and> read_json (getJsonPath ''u2'') store_damaged = Inl SyntaxError
   \<and> list_handler example_dates store_damaged
       = \<lparr>status = 500, body = Failure ''Failed to fetch profiles''\<rparr>"
  by (simp add: folders_damaged list_damaged)
     (simp add: paths_more fs_defs store_damaged_def empty_store_def)

text \<open>
  C7 (amended): List skips every folder whose metadata file is absent: its answer is
  the one it gives for the folders that have a metadata file, and a folder without one
  never makes it fail. A folder whose metadata file exists but cannot be read as a
  record is not skipped: List then fails with 500 \<open>Failed to fetch profiles\<close>.
\<close>

theorem list_skips_missing_metadata:
  assumes "store_folders fs = Inr folders"
  shows "list_handler D fs = list_from D fs (Inr (filter (\<lambda>f. pathExists (getJsonPath f) fs) folders))
       \<and> ((\<exists>f \<in> set folders. pathExists (getJsonPath f) fs
              \<and> (\<forall>d. map_of fs (getJsonPath f) \<noteq> Some (File (Doc d))))
            \<longrightarrow> list_handler D fs = \<lparr>status = 500, body = Failure ''Failed to fetch profiles''\<rparr>)"
proof -
  have a: "list_handler D fs = list_from D fs (Inr (filter (\<lambda>f. pathExists (getJsonPath f) fs) folders))"
    using scan_folders_skip [of fs folders]
    by (simp add: list_handler_def list_from_def assms)
  have b: "(\<exists>f \<in> set folders. pathExists (getJsonPath f) fs
              \<and> (\<forall>d. map_of fs (getJsonPath f) \<noteq> Some (File (Doc d))))
            \<longrightarrow> list_handler D fs = \<lparr>status = 500, body = Failure ''Failed to fetch profiles''\<rparr>"
  proof
    assume "\<exists>f \<in> set folders. pathExists (getJsonPath f) fs
              \<and> (\<forall>d. map_of fs (getJsonPath f) \<noteq> Some (File (Doc d)))"
    then obtain f where "f \<in> set folders" "pathExists (getJsonPath f) fs"
      "\<forall>d. map_of fs (getJsonPath f) \<noteq> Some (File (Doc d))" by blast
    from scan_folders_unreadable [OF this] obtain e where "scan_folders fs folders = Inl e"
      by (cases "scan_folders fs folders") auto
    then show "list_handler D fs = \<lparr>status = 500, body = Failure ''Failed to fetch profiles''\<rparr>"
      by (simp add: list_handler_def list_from_def assms respond_def)
  qed
  from a b show ?thesis by blast
qed

theorem list_skips_missing_metadata_witness:
  "store_folders store_two = Inr [''u1'', ''u2'', ''lost+found'']
   \<and> \<not> pathExists (getJsonPath ''lost+found'') store_two
   \<and> list_handler example_dates store_two = list_from example_dates store_two (Inr [''u1'', ''u2''])
   \<and> list_handler example_dates store_two = \<lparr>status = 200, body = Listing [bob_summary, ann_summary]\<rparr>
   \<and> store_folders store_cut_short = Inr [''u1'', ''u2'']
   \<and> pathExists (getJsonPath ''u2'') store_cut_short
   \<and> map_of store_cut_short (getJsonPath ''u2'') = Some (File (Bytes ''{''))
   \<and> list_handler example_dates store_cut_short
       = \<lparr>status = 500, body = Failure ''Failed to fetch profiles''\<rparr>"
proof -
  have ex: "pathExists (getJsonPath ''u1'') store_two" "pathExists (getJsonPath ''u2'') store_two"
    "\<not> pathExists (getJsonPath ''lost+found'') store_two"
    by (simp_all add: paths_u1 paths_more pathExists_def store_two_def store_u1_def empty_store_def)
  from list_skips_missing_metadata [OF folders_two, of example_dates] ex
  have a: "list_handler example_dates store_two = list_from example_dates store_two (Inr [''u1'', ''u2''])"
    by simp
  have c: "pathExists (getJsonPath ''u2'') store_cut_short"
    "map_of store_cut_short (getJsonPath ''u2'') = Some (File (Bytes ''{''))"
    by (simp_all add: paths_more pathExists_def store_cut_short_def store_u1_def empty_store_def)
  then have "\<exists>f \<in> set [''u1'', ''u2'']. pathExists (getJsonPath f) store_cut_short
              \<and> (\<forall>d. map_of store_cut_short (getJsonPath f) \<noteq> Some (File (Doc d)))"
    by simp
  with list_skips_missing_metadata [OF folders_cut_short, of example_dates]
  have b: "list_handler example_dates store_cut_short
       = \<lparr>status = 500, body = Failure ''Failed to fetch profiles''\<rparr>"
    by blast
  from folders_two ex(3) a list_two folders_cut_short c b show ?thesis by simp
qed

text \<open>
  C1 (as stated, refuted): the profile \<open>u1\<close> whose directory holds the metadata record
  but no photo file is returned by Get and listed by List as a valid profile.
\<close>

theorem metadata_without_photo_is_exposed:
  "readdir (getProfilePath ''u1'') store_u1_no_photo = Inr [''profile.json'']
   \<and> map_of store_u1_no_photo (getPhotoPath ''u1'' ''photo.jpg'') = None
   \<and> get_handler ''u1'' store_u1_no_photo
       = \<lparr>status = 200,
          body = Profile (ann_record @ [(''photoUrl'', JStr ''/images/u1/photo.jpg'')])\<rparr>
   \<and> list_handler example_dates store_u1_no_photo = \<lparr>status = 200, body = Listing [ann_summary]\<rparr>"
  by (simp add: dir_no_photo get_no_photo list_no_photo)
     (simp add: paths_u1 store_u1_no_photo_def empty_store_def)

text \<open>
  C1 (amended): what Get and List expose is decided by the metadata records alone; no
  photo file is ever consulted. Get answers 404 when the metadata file of the id is
  absent, whatever photo files exist, and returns the record (with its photo URL) when
  the metadata file is a readable record, whether or not the photo file exists.
  Whenever List answers with a listing, every folder that has a metadata file has a
  readable record and its summary (whose photo path is built from the record) is in the
  listing, and every listed summary is the summary of the readable record of some
  folder. (List does not answer with a listing at all when some folder's metadata file
  cannot be read, see \<open>list_cut_short\<close>.) In any two stores that agree on the folder
  listing and on every metadata file, Get and List answer the same. So a photo without
  a metadata record is never exposed, while a metadata record without its photo file
  is.
\<close>

theorem reads_follow_metadata:
  "(\<not> pathExists (getJsonPath pid) fs \<longrightarrow>
      get_handler pid fs = \<lparr>status = 404, body = Failure ''Profile not found''\<rparr>)
   \<and> (map_of fs (getJsonPath pid) = Some (File (Doc d)) \<longrightarrow>
      get_handler pid fs
        = \<lparr>status = 200,
           body = Profile (assign ''photoUrl''
                    (Some (JStr (''/images/'' @ to_string (map_of d ''id'') @ ''/''
                                   @ to_string (map_of d ''photo'')))) d)\<rparr>)
   \<and> ((\<forall>f. map_of fs (getJsonPath f) = map_of fs' (getJsonPath f))
        \<and> store_folders fs = store_folders fs'
      \<longrightarrow> get_handler pid fs = get_handler pid fs' \<and> list_handler D fs = list_handler D fs')
   \<and> (list_handler D fs = \<lparr>status = 200, body = Listing ps\<rparr> \<longrightarrow>
        (\<exists>folders. store_folders fs = Inr folders
           \<and> (\<forall>f \<in> set folders. pathExists (getJsonPath f) fs \<longrightarrow>
                 (\<exists>r p. map_of fs (getJsonPath f) = Some (File (Doc r)) \<and> summary_of r = Inr p
                      \<and> s_photo p = ''/images/'' @ to_string (map_of r ''id'') @ ''/''
                                      @ to_string (map_of r ''photo'')
                      \<and> p \<in> set ps))
           \<and> (\<forall>p \<in> set ps. \<exists>f r. f \<in> set folders
                 \<and> map_of fs (getJsonPath f) = Some (File (Doc r)) \<and> summary_of r = Inr p)))"
proof -
  have a: "\<not> pathExists (getJsonPath pid) fs \<longrightarrow>
      get_handler pid fs = \<lparr>status = 404, body = Failure ''Profile not found''\<rparr>"
    by (simp add: get_handler_def respond_def)
  have b: "map_of fs (getJsonPath pid) = Some (File (Doc d)) \<longrightarrow>
      get_handler pid fs
        = \<lparr>status = 200,
           body = Profile (assign ''photoUrl''
                    (Some (JStr (''/images/'' @ to_string (map_of d ''id'') @ ''/''
                                   @ to_string (map_of d ''photo'')))) d)\<rparr>"
    by (simp add: get_handler_def pathExists_def read_json_def readFile_def JSON_parse_def
        respond_def photo_url_def)
  have c: "(\<forall>f. map_of fs (getJsonPath f) = map_of fs' (getJsonPath f))
        \<and> store_folders fs = store_folders fs'
      \<longrightarrow> get_handler pid fs = get_handler pid fs' \<and> list_handler D fs = list_handler D fs'"
  proof
    assume h: "(\<forall>f. map_of fs (getJsonPath f) = map_of fs' (getJsonPath f))
        \<and> store_folders fs = store_folders fs'"
    then have m: "\<forall>f. map_of fs (getJsonPath f) = map_of fs' (getJsonPath f)" by simp
    have g: "get_handler pid fs = get_handler pid fs'"
      using m by (simp add: get_handler_def pathExists_def read_json_def readFile_def)
    have "\<And>fl. scan_folders fs fl = scan_folders fs' fl"
      using scan_folders_agree [OF m] .
    with h have "list_handler D fs = list_handler D fs'"
      by (simp add: list_handler_def list_from_def cong: sum.case_cong)
    with g show "get_handler pid fs = get_handler pid fs' \<and> list_handler D fs = list_handler D fs'"
      by simp
  qed
  have e: "list_handler D fs = \<lparr>status = 200, body = Listing ps\<rparr> \<longrightarrow>
        (\<exists>folders. store_folders fs = Inr folders
           \<and> (\<forall>f \<in> set folders. pathExists (getJsonPath f) fs \<longrightarrow>
                 (\<exists>r p. map_of fs (getJsonPath f) = Some (File (Doc r)) \<and> summary_of r = Inr p
                      \<and> s_photo p = ''/images/'' @ to_string (map_of r ''id'') @ ''/''
                                      @ to_string (map_of r ''photo'')
                      \<and> p \<in> set ps))
           \<and> (\<forall>p \<in> set ps. \<exists>f r. f \<in> set folders
                 \<and> map_of fs (getJsonPath f) = Some (File (Doc r)) \<and> summary_of r = Inr p))"
  proof
    assume "list_handler D fs = \<lparr>status = 200, body = Listing ps\<rparr>"
    from list_handler_Listing [OF this] obtain folders qs where
      fl: "store_folders fs = Inr folders" and qs: "scan_folders fs folders = Inr qs" and
      eq: "set ps = set qs"
      by blast
    have e1: "\<forall>f \<in> set folders. pathExists (getJsonPath f) fs \<longrightarrow>
                 (\<exists>r p. map_of fs (getJsonPath f) = Some (File (Doc r)) \<and> summary_of r = Inr p
                      \<and> s_photo p = ''/images/'' @ to_string (map_of r ''id'') @ ''/''
                                      @ to_string (map_of r ''photo'')
                      \<and> p \<in> set ps)"
    proof (intro ballI impI)
      fix f
      assume "f \<in> set folders" "pathExists (getJsonPath f) fs"
      from scan_folders_complete [OF qs this] obtain r p where
        "map_of fs (getJsonPath f) = Some (File (Doc r))" "summary_of r = Inr p" "p \<in> set qs"
        by blast
      with eq summary_of_photo [of r p]
      show "\<exists>r p. map_of fs (getJsonPath f) = Some (File (Doc r)) \<and> summary_of r = Inr p
                      \<and> s_photo p = ''/images/'' @ to_string (map_of r ''id'') @ ''/''
                                      @ to_string (map_of r ''photo'')
                      \<and> p \<in> set ps"
        by blast
    qed
    have e2: "\<forall>p \<in> set ps. \<exists>f r. f \<in> set folders
                 \<and> map_of fs (getJsonPath f) = Some (File (Doc r)) \<and> summary_of r = Inr p"
    proof
      fix p
      assume "p \<in> set ps"
      with eq have "p \<in> set qs" by simp
      from scan_folders_sound [OF qs this]
      show "\<exists>f r. f \<in> set folders
                 \<and> map_of fs (getJsonPath f) = Some (File (Doc r)) \<and> summary_of r = Inr p" .
    qed
    from fl e1 e2 show "\<exists>folders. store_folders fs = Inr folders
           \<and> (\<forall>f \<in> set folders. pathExists (getJsonPath f) fs \<longrightarrow>
                 (\<exists>r p. map_of fs (getJsonPath f) = Some (File (Doc r)) \<and> summary_of r = Inr p
                      \<and> s_photo p = ''/images/'' @ to_string (map_of r ''id'') @ ''/''
                                      @ to_string (map_of r ''photo'')
                      \<and> p \<in> set ps))
           \<and> (\<forall>p \<in> set ps. \<exists>f r. f \<in> set folders
                 \<and> map_of fs (getJsonPath f) = Some (File (Doc r)) \<and> summary_of r = Inr p)"
      by blast
  qed
  from a b c e show ?thesis by blast
qed

theorem reads_follow_metadata_witness:
  "\<not> pathExists (getJsonPath ''u3'') store_photo_only
   \<and> map_of store_photo_only (getPhotoPath ''u3'' ''photo.jpg'') = Some (File (Bytes ''JFIF''))
   \<and> get_handler ''u3'' store_photo_only = \<lparr>status = 404, body = Failure ''Profile not found''\<rparr>
   \<and> map_of store_u1 (getJsonPath ''u1'') = Some (File (Doc ann_record))
   \<and> get_handler ''u1'' store_u1
       = \<lparr>status = 200,
          body = Profile (ann_record @ [(''photoUrl'', JStr ''/images/u1/photo.jpg'')])\<rparr>
   \<and> store_folders store_u1 = store_folders store_u1_no_photo
   \<and> get_handler ''u1'' store_u1 = get_handler ''u1'' store_u1_no_photo
   \<and> list_handler example_dates store_u1 = list_handler example_dates store_u1_no_photo
   \<and> list_handler example_dates store_u1_no_photo = \<lparr>status = 200, body = Listing [ann_summary]\<rparr>
   \<and> store_folders store_u1_no_photo = Inr [''u1'']
   \<and> pathExists (getJsonPath ''u1'') store_u1_no_photo
   \<and> map_of store_u1_no_photo (getPhotoPath ''u1'' ''photo.jpg'') = None
   \<and> (\<exists>r. map_of store_u1_no_photo (getJsonPath ''u1'') = Some (File (Doc r))
          \<and> summary_of r = Inr ann_summary
          \<and> s_photo ann_summary = ''/images/'' @ to_string (map_of r ''id'') @ ''/''
                                      @ to_string (map_of r ''photo''))"
proof -
  have p3: "getPhotoPath ''u3'' ''photo.jpg''
              = [''srv'', ''backend'', ''data'', ''profiles'', ''u3'', ''photo.jpg'']"
    by (simp add: getPhotoPath_def join_def norm_step_def profilesDir_def app_dir_def)
  have a1: "\<not> pathExists (getJsonPath ''u3'') store_photo_only"
    by (simp add: paths_more pathExists_def store_photo_only_def empty_store_def)
  have a2: "map_of store_photo_only (getPhotoPath ''u3'' ''photo.jpg'') = Some (File (Bytes ''JFIF''))"
    by (simp add: p3 store_photo_only_def empty_store_def)
  from reads_follow_metadata [of "''u3''" store_photo_only ann_record store_photo_only example_dates "[]"] a1
  have a3: "get_handler ''u3'' store_photo_only = \<lparr>status = 404, body = Failure ''Profile not found''\<rparr>"
    by blast
  have b1: "map_of store_u1 (getJsonPath ''u1'') = Some (File (Doc ann_record))"
    by (simp add: paths_u1 store_u1_def empty_store_def)
  have nq: "\<And>f. getJsonPath f \<noteq> [''srv'', ''backend'', ''data'', ''profiles'', ''u1'', ''photo.jpg'']"
  proof
    fix f
    assume "getJsonPath f = [''srv'', ''backend'', ''data'', ''profiles'', ''u1'', ''photo.jpg'']"
    then have "last (getJsonPath f) = ''photo.jpg''" by simp
    then show False by (simp add: getJsonPath_eq)
  qed
  have c1: "\<forall>f. map_of store_u1 (getJsonPath f) = map_of store_u1_no_photo (getJsonPath f)"
    by (simp add: store_u1_def store_u1_no_photo_def empty_store_def nq)
  have c2: "store_folders store_u1 = store_folders store_u1_no_photo"
    by (simp add: folders_u1 folders_no_photo)
  note t = reads_follow_metadata [of "''u1''" store_u1 ann_record store_u1_no_photo example_dates "[]"]
  from t b1 have b2: "get_handler ''u1'' store_u1
       = \<lparr>status = 200,
          body = Profile (ann_record @ [(''photoUrl'', JStr ''/images/u1/photo.jpg'')])\<rparr>"
    by (simp add: assign_def ann_record_def to_string_def)
  from t c1 c2 have c3: "get_handler ''u1'' store_u1 = get_handler ''u1'' store_u1_no_photo
      \<and> list_handler example_dates store_u1 = list_handler example_dates store_u1_no_photo"
    by blast
  note l = reads_follow_metadata [of "''u1''" store_u1_no_photo ann_record store_u1_no_photo
      example_dates "[ann_summary]"]
  have d1: "pathExists (getJsonPath ''u1'') store_u1_no_photo"
    by (simp add: paths_u1 pathExists_def store_u1_no_photo_def empty_store_def)
  have d2: "map_of store_u1_no_photo (getPhotoPath ''u1'' ''photo.jpg'') = None"
    by (simp add: paths_u1 store_u1_no_photo_def empty_store_def)
  from l list_no_photo [of example_dates] have
    "\<exists>folders. store_folders store_u1_no_photo = Inr folders
           \<and> (\<forall>f \<in> set folders. pathExists (getJsonPath f) store_u1_no_photo \<longrightarrow>
                 (\<exists>r p. map_of store_u1_no_photo (getJsonPath f) = Some (File (Doc r))
                      \<and> summary_of r = Inr p
                      \<and> s_photo p = ''/images/'' @ to_string (map_of r ''id'') @ ''/''
                                      @ to_string (map_of r ''photo'')
                      \<and> p \<in> set [ann_summary]))"
    by blast
  with folders_no_photo d1 have
    d3: "\<exists>r. map_of store_u1_no_photo (getJsonPath ''u1'') = Some (File (Doc r))
          \<and> summary_of r = Inr ann_summary
          \<and> s_photo ann_summary = ''/images/'' @ to_string (map_of r ''id'') @ ''/''
                                      @ to_string (map_of r ''photo'')"
    by auto
  from a1 a2 a3 b1 b2 c2 c3 list_no_photo [of example_dates] folders_no_photo d1 d2 d3
  show ?thesis by simp
qed
end
